theory Spec2Isabelle
  imports Complex_Main "HOL-Library.AList" "HOL-Library.Word"
begin

section \<open>The congestion controller of the chat server\<close>

text \<open>
  The class \<^verbatim>\<open>CongestionControl\<close> of \<^verbatim>\<open>tcp_chat_server.py\<close>. Its fields are Python
  floats (\<^verbatim>\<open>cwnd\<close>, \<^verbatim>\<open>ssthresh\<close>, \<^verbatim>\<open>srtt\<close>, \<^verbatim>\<open>rttvar\<close>, \<^verbatim>\<open>rto\<close>, the samples), Python
  integers (\<^verbatim>\<open>duplicate_acks\<close>, \<^verbatim>\<open>last_ack\<close>) and an enumeration. Floats are modelled by
  real numbers: rounding, overflow to infinity and NaN are outside the model. Every
  method mutates the object; here it takes the object and returns the updated one.
\<close>

datatype CongestionState = SLOW_START | CONGESTION_AVOIDANCE | FAST_RECOVERY

record CongestionControl =
  cwnd :: real
  ssthresh :: real
  state :: CongestionState
  duplicate_acks :: int
  last_ack :: int
  rtt_samples :: "real list"
  srtt :: real
  rttvar :: real
  rto :: real

text \<open>\<^verbatim>\<open>CongestionControl.__init__\<close>\<close>

definition CongestionControl_init :: CongestionControl where
  "CongestionControl_init =
     \<lparr>cwnd = 1, ssthresh = 64, state = SLOW_START, duplicate_acks = 0, last_ack = 0,
      rtt_samples = [], srtt = 0, rttvar = 0, rto = 3\<rparr>"

text \<open>
  \<^verbatim>\<open>update_rtt\<close>: the first sample initialises the estimator, later ones are blended in
  with \<open>alpha = 0.125\<close> and \<open>beta = 0.25\<close> (\<^verbatim>\<open>rttvar\<close> first, from the old \<^verbatim>\<open>srtt\<close>); then
  \<^verbatim>\<open>rto\<close> is recomputed, the sample appended, and the first element popped when the list
  has grown beyond 100.
\<close>

definition update_rtt :: "CongestionControl \<Rightarrow> real \<Rightarrow> CongestionControl" where
  "update_rtt c rtt =
     (let c1 = (if rtt_samples c = []
                then c\<lparr>srtt := rtt, rttvar := rtt / 2\<rparr>
                else (let alpha = 0.125; beta = 0.25;
                          rv = (1 - beta) * rttvar c + beta * \<bar>srtt c - rtt\<bar>;
                          sr = (1 - alpha) * srtt c + alpha * rtt
                      in c\<lparr>rttvar := rv, srtt := sr\<rparr>));
          c2 = c1\<lparr>rto := max 1 (srtt c1 + 4 * rttvar c1)\<rparr>;
          c3 = c2\<lparr>rtt_samples := rtt_samples c2 @ [rtt]\<rparr>
      in if length (rtt_samples c3) > 100
         then c3\<lparr>rtt_samples := tl (rtt_samples c3)\<rparr>
         else c3)"

text \<open>
  \<^verbatim>\<open>on_ack_received\<close>: the sample is fed to the estimator first, whatever the
  acknowledgement number; then a number above \<^verbatim>\<open>last_ack\<close> is a new acknowledgement, an
  equal one a duplicate, and a smaller one changes nothing more.
\<close>

definition on_ack_received :: "CongestionControl \<Rightarrow> int \<Rightarrow> real \<Rightarrow> CongestionControl" where
  "on_ack_received c0 ack_num rtt =
     (let c = update_rtt c0 rtt in
      if ack_num > last_ack c then
        (let c1 = c\<lparr>duplicate_acks := 0, last_ack := ack_num\<rparr> in
         if state c1 = SLOW_START then
           (let c2 = c1\<lparr>cwnd := cwnd c1 + 1\<rparr> in
            if cwnd c2 \<ge> ssthresh c2 then c2\<lparr>state := CONGESTION_AVOIDANCE\<rparr> else c2)
         else if state c1 = CONGESTION_AVOIDANCE then
           c1\<lparr>cwnd := cwnd c1 + 1 / cwnd c1\<rparr>
         else
           c1\<lparr>cwnd := ssthresh c1, state := CONGESTION_AVOIDANCE\<rparr>)
      else if ack_num = last_ack c then
        (let c1 = c\<lparr>duplicate_acks := duplicate_acks c + 1\<rparr> in
         if duplicate_acks c1 = 3 then
           (let c2 = c1\<lparr>ssthresh := max (cwnd c1 / 2) 2\<rparr>;
                c3 = c2\<lparr>cwnd := ssthresh c2 + 3\<rparr>
            in c3\<lparr>state := FAST_RECOVERY\<rparr>)
         else if state c1 = FAST_RECOVERY then
           c1\<lparr>cwnd := cwnd c1 + 1\<rparr>
         else c1)
      else c)"

text \<open>\<^verbatim>\<open>on_timeout\<close>\<close>

definition on_timeout :: "CongestionControl \<Rightarrow> CongestionControl" where
  "on_timeout c =
     (let c1 = c\<lparr>ssthresh := max (cwnd c / 2) 2\<rparr>;
          c2 = c1\<lparr>cwnd := 1\<rparr>;
          c3 = c2\<lparr>state := SLOW_START\<rparr>;
          c4 = c3\<lparr>duplicate_acks := 0\<rparr>
      in c4\<lparr>rto := rto c4 * 2\<rparr>)"

text \<open>
  Runs of events on one controller. \<open>dup_acks\<close> feeds a run of duplicate
  acknowledgements (each carries the number the controller saw last), \<open>process_acks\<close>
  a run of arbitrary acknowledgements, and \<open>cc_run\<close> any sequence of acknowledgements
  and timeouts to a controller fresh from \<^verbatim>\<open>__init__\<close>.
\<close>

fun dup_acks :: "CongestionControl \<Rightarrow> real list \<Rightarrow> CongestionControl" where
  "dup_acks c [] = c"
| "dup_acks c (rtt # rtts) = dup_acks (on_ack_received c (last_ack c) rtt) rtts"

fun process_acks :: "CongestionControl \<Rightarrow> (int \<times> real) list \<Rightarrow> CongestionControl" where
  "process_acks c [] = c"
| "process_acks c ((ack_num, rtt) # acks) = process_acks (on_ack_received c ack_num rtt) acks"

text \<open>
  Every acknowledgement of the run is a new one (its number is above \<^verbatim>\<open>last_ack\<close>) and
  finds the controller in \<^verbatim>\<open>SLOW_START\<close>.
\<close>

fun new_acks_in_slow_start :: "CongestionControl \<Rightarrow> (int \<times> real) list \<Rightarrow> bool" where
  "new_acks_in_slow_start c [] = True"
| "new_acks_in_slow_start c ((ack_num, rtt) # acks) =
     (state c = SLOW_START \<and> ack_num > last_ack c \<and>
      new_acks_in_slow_start (on_ack_received c ack_num rtt) acks)"

datatype cc_event = Ack int real | Timeout

fun cc_step :: "CongestionControl \<Rightarrow> cc_event \<Rightarrow> CongestionControl" where
  "cc_step c (Ack ack_num rtt) = on_ack_received c ack_num rtt"
| "cc_step c Timeout = on_timeout c"

definition cc_run :: "cc_event list \<Rightarrow> CongestionControl" where
  "cc_run evs = foldl cc_step CongestionControl_init evs"

text \<open>The samples a sequence of events feeds to the estimator, oldest first.\<close>

fun samples_of :: "cc_event list \<Rightarrow> real list" where
  "samples_of [] = []"
| "samples_of (Ack ack_num rtt # evs) = rtt # samples_of evs"
| "samples_of (Timeout # evs) = samples_of evs"

definition last_n :: "nat \<Rightarrow> 'a list \<Rightarrow> 'a list" where
  "last_n n xs = drop (length xs - n) xs"

section \<open>Messages and connections of the chat server\<close>

text \<open>
  \<^verbatim>\<open>MessageType\<close> and the dataclass \<^verbatim>\<open>Message\<close> as \<^verbatim>\<open>tcp_chat_server.py\<close> declares them
  (the server does not import \<^verbatim>\<open>chat_protocol.py\<close>; its message has six fields).
\<close>

datatype MessageType = CHAT | ACK | HEARTBEAT | JOIN | LEAVE | RETRANSMIT

record Message =
  msg_id :: string
  msg_type :: MessageType
  sender :: string
  content :: string
  timestamp :: real
  checksum :: string

text \<open>
  \<^verbatim>\<open>ClientConnection\<close>. The dictionary \<^verbatim>\<open>pending_messages\<close> keeps insertion order, which
  the sender iterates in, so it is an association list maintained with \<open>AList.update\<close>
  (an existing key keeps its place, a new one goes last) and \<open>AList.delete\<close>. The socket
  is modelled by two fields: \<open>socket_open\<close> says whether \<^verbatim>\<open>sendall\<close> succeeds, and
  \<open>wire\<close> lists the messages whose frames \<^verbatim>\<open>sendall\<close> has written, oldest first. Time is
  an argument wherever the source reads \<^verbatim>\<open>time.time()\<close>. The sender thread and the
  handler thread are interleaved at the granularity of one pass of the sender loop and
  one handled message.
\<close>

record ClientConnection =
  client_id :: string
  username :: string
  congestion_control :: CongestionControl
  send_queue :: "Message list"
  pending_messages :: "(string \<times> Message \<times> real) list"
  last_heartbeat :: real
  sequence_number :: int
  expected_ack :: int
  running :: bool
  socket_open :: bool
  wire :: "Message list"

text \<open>\<^verbatim>\<open>ClientConnection.__init__\<close>, at time \<open>now\<close>, on a socket just accepted.\<close>

definition ClientConnection_init :: "string \<Rightarrow> real \<Rightarrow> ClientConnection" where
  "ClientConnection_init cid now =
     \<lparr>client_id = cid, username = [], congestion_control = CongestionControl_init,
      send_queue = [], pending_messages = [], last_heartbeat = now, sequence_number = 0,
      expected_ack = 0, running = True, socket_open = True, wire = []\<rparr>"

text \<open>\<^verbatim>\<open>_send_raw\<close>: a failed \<^verbatim>\<open>sendall\<close> is caught and clears \<^verbatim>\<open>running\<close>.\<close>

definition send_raw :: "ClientConnection \<Rightarrow> Message \<Rightarrow> ClientConnection" where
  "send_raw conn message =
     (if socket_open conn then conn\<lparr>wire := wire conn @ [message]\<rparr>
      else conn\<lparr>running := False\<rparr>)"

text \<open>\<^verbatim>\<open>send_message\<close>\<close>

definition send_message :: "ClientConnection \<Rightarrow> Message \<Rightarrow> ClientConnection" where
  "send_message conn message =
     (if running conn then conn\<lparr>send_queue := send_queue conn @ [message]\<rparr> else conn)"

text \<open>
  One pass of the loop of \<^verbatim>\<open>_sender_worker\<close>, in its three steps. First the identifiers
  whose last send is older than \<^verbatim>\<open>rto\<close> are collected (with the \<^verbatim>\<open>rto\<close> of that moment).
\<close>

definition to_retransmit :: "ClientConnection \<Rightarrow> real \<Rightarrow> string list" where
  "to_retransmit conn current_time =
     map fst (filter (\<lambda>(i, message, send_time).
                        current_time - send_time > rto (congestion_control conn))
                (pending_messages conn))"

text \<open>
  Then each of them that is still pending is sent again, its send time is reset, and
  the controller takes a timeout. Nothing counts the sends and nothing gives up.
\<close>

fun retransmit :: "real \<Rightarrow> string list \<Rightarrow> ClientConnection \<Rightarrow> ClientConnection" where
  "retransmit current_time [] conn = conn"
| "retransmit current_time (i # ids) conn =
     retransmit current_time ids
       (case map_of (pending_messages conn) i of
          None \<Rightarrow> conn
        | Some (message, _) \<Rightarrow>
            (let c1 = send_raw conn message;
                 c2 = c1\<lparr>pending_messages :=
                         AList.update i (message, current_time) (pending_messages c1)\<rparr>
             in c2\<lparr>congestion_control := on_timeout (congestion_control c2)\<rparr>))"

text \<open>
  Last, up to \<^verbatim>\<open>max(0, can_send)\<close> queued messages are taken (an empty queue ends the
  loop), sent, and recorded as pending unless they are acknowledgements.
\<close>

fun send_new :: "nat \<Rightarrow> real \<Rightarrow> ClientConnection \<Rightarrow> ClientConnection" where
  "send_new 0 current_time conn = conn"
| "send_new (Suc n) current_time conn =
     (case send_queue conn of
        [] \<Rightarrow> conn
      | message # rest \<Rightarrow>
          (let c1 = send_raw (conn\<lparr>send_queue := rest\<rparr>) message;
               c2 = (if msg_type message \<noteq> ACK
                     then c1\<lparr>pending_messages :=
                            AList.update (msg_id message) (message, current_time)
                              (pending_messages c1)\<rparr>
                     else c1)
           in send_new n current_time c2))"

text \<open>Python's \<^verbatim>\<open>int\<close> of a float truncates towards zero.\<close>

definition py_int :: "real \<Rightarrow> int" where
  "py_int x = (if x \<ge> 0 then \<lfloor>x\<rfloor> else \<lceil>x\<rceil>)"

definition sender_worker_pass :: "ClientConnection \<Rightarrow> real \<Rightarrow> ClientConnection" where
  "sender_worker_pass conn current_time =
     (let c1 = retransmit current_time (to_retransmit conn current_time) conn;
          messages_in_flight = int (length (pending_messages c1));
          can_send = py_int (cwnd (congestion_control c1)) - messages_in_flight
      in send_new (nat (max 0 can_send)) current_time c1)"

text \<open>
  \<^verbatim>\<open>handle_ack\<close>. The argument \<open>ack_for\<close> stands for
  \<^verbatim>\<open>json.loads(content).get('ack_for')\<close>: \<open>None\<close> when the content does not parse (the
  exception is caught and logged), when the key is absent, or when its value is not a
  string (and then is no key of \<^verbatim>\<open>pending_messages\<close>). The sample is the time since the
  entry's send time, which a retransmission has reset; the acknowledgement number
  handed to the controller is the connection's own counter.
\<close>

definition handle_ack ::
  "(string \<Rightarrow> string option) \<Rightarrow> ClientConnection \<Rightarrow> Message \<Rightarrow> real \<Rightarrow> ClientConnection" where
  "handle_ack ack_for conn ack_message now =
     (case ack_for (content ack_message) of
        None \<Rightarrow> conn
      | Some ack_msg_id \<Rightarrow>
          (case map_of (pending_messages conn) ack_msg_id of
             None \<Rightarrow> conn
           | Some (_, send_time) \<Rightarrow>
               (let rtt = now - send_time;
                    c1 = conn\<lparr>congestion_control :=
                           on_ack_received (congestion_control conn) (expected_ack conn) rtt\<rparr>;
                    c2 = c1\<lparr>expected_ack := expected_ack c1 + 1\<rparr>
                in c2\<lparr>pending_messages := AList.delete ack_msg_id (pending_messages c2)\<rparr>)))"

text \<open>\<^verbatim>\<open>close\<close>\<close>

definition close :: "ClientConnection \<Rightarrow> ClientConnection" where
  "close conn = conn\<lparr>running := False, socket_open := False\<rparr>"

text \<open>
  What can happen to one connection: a message is queued, the sender loop makes a pass
  (while \<^verbatim>\<open>running\<close> holds), an acknowledgement is handled, the peer drops the socket,
  the connection is closed.
\<close>

datatype conn_event =
  Enqueue Message | Sender_pass real | Handle_ack Message real | Socket_fails | Close

fun conn_step ::
  "(string \<Rightarrow> string option) \<Rightarrow> ClientConnection \<Rightarrow> conn_event \<Rightarrow> ClientConnection" where
  "conn_step ack_for conn (Enqueue message) = send_message conn message"
| "conn_step ack_for conn (Sender_pass current_time) =
     (if running conn then sender_worker_pass conn current_time else conn)"
| "conn_step ack_for conn (Handle_ack ack_message now) = handle_ack ack_for conn ack_message now"
| "conn_step ack_for conn Socket_fails = conn\<lparr>socket_open := False\<rparr>"
| "conn_step ack_for conn Close = close conn"

definition conn_run ::
  "(string \<Rightarrow> string option) \<Rightarrow> ClientConnection \<Rightarrow> conn_event list \<Rightarrow> ClientConnection" where
  "conn_run ack_for conn evs = foldl (conn_step ack_for) conn evs"




section \<open>Library functions\<close>

text \<open>
  The sources call into Python's standard library: \<^verbatim>\<open>hashlib.sha256\<close>, the formatting of
  a float in an f-string, and \<^verbatim>\<open>json.dumps\<close> / \<^verbatim>\<open>json.loads\<close>. They are not code of this
  repository. The functions below take them as one argument, a record of functions, and
  the general theorems hold for every such record. The JSON texts and the hashed strings
  are byte strings (\<^verbatim>\<open>.encode()\<close> and \<^verbatim>\<open>.decode()\<close> being part of the library functions).
\<close>

datatype json =
  JNull | JBool bool | JInt int | JFloat real | JString string
  | JArray "json list" | JObject "(string \<times> json) list"

record library =
  sha256_hexdigest :: "string \<Rightarrow> string"
  str_float :: "real \<Rightarrow> string"
  json_dumps :: "json \<Rightarrow> string"
  json_dumps_compact :: "json \<Rightarrow> string"
  json_loads :: "string \<Rightarrow> json option"

text \<open>Python's \<^verbatim>\<open>str\<close> of an integer: decimal digits, a minus sign when negative.\<close>

definition digit_char :: "nat \<Rightarrow> char" where
  "digit_char d = ''0123456789'' ! d"

function str_nat :: "nat \<Rightarrow> string" where
  "str_nat n = (if n < 10 then [digit_char n] else str_nat (n div 10) @ [digit_char (n mod 10)])"
  by pat_completeness auto
termination
  by (relation "measure id") auto

declare str_nat.simps [simp del]

definition str_int :: "int \<Rightarrow> string" where
  "str_int i = (if i < 0 then ''-'' @ str_nat (nat (- i)) else str_nat (nat i))"

section \<open>Message handling of the chat server\<close>

text \<open>The values of the enumeration \<^verbatim>\<open>MessageType\<close>.\<close>

fun MessageType_value :: "MessageType \<Rightarrow> string" where
  "MessageType_value CHAT = ''chat''"
| "MessageType_value ACK = ''ack''"
| "MessageType_value HEARTBEAT = ''heartbeat''"
| "MessageType_value JOIN = ''join''"
| "MessageType_value LEAVE = ''leave''"
| "MessageType_value RETRANSMIT = ''retransmit''"

text \<open>
  \<^verbatim>\<open>Message.calculate_checksum\<close> of the server: five fields, no \<^verbatim>\<open>priority\<close> and no
  \<^verbatim>\<open>sequence_number\<close>, which this class does not have.
\<close>

definition checksum_data :: "library \<Rightarrow> Message \<Rightarrow> string" where
  "checksum_data L m =
     msg_id m @ MessageType_value (msg_type m) @ sender m @ content m @ str_float L (timestamp m)"

definition calculate_checksum :: "library \<Rightarrow> Message \<Rightarrow> string" where
  "calculate_checksum L m = take 16 (sha256_hexdigest L (checksum_data L m))"


text \<open>The constructor with \<^verbatim>\<open>__post_init__\<close>: an empty checksum is filled in.\<close>

definition Message_init ::
  "library \<Rightarrow> string \<Rightarrow> MessageType \<Rightarrow> string \<Rightarrow> string \<Rightarrow> real \<Rightarrow> string \<Rightarrow> Message" where
  "Message_init L i t s c ts cs =
     (let m = \<lparr>msg_id = i, msg_type = t, sender = s, content = c, timestamp = ts, checksum = cs\<rparr>
      in if checksum m = [] then m\<lparr>checksum := calculate_checksum L m\<rparr> else m)"

text \<open>
  \<^verbatim>\<open>json.loads(ack_message.content).get('ack_for')\<close> as far as \<^verbatim>\<open>handle_ack\<close> can tell:
  a text that does not parse, a document that is no object, a missing key and a value
  that is no string all leave the connection as it is.
\<close>

definition ack_for_of :: "library \<Rightarrow> string \<Rightarrow> string option" where
  "ack_for_of L s =
     (case json_loads L s of
        Some (JObject kvs) \<Rightarrow>
          (case map_of kvs ''ack_for'' of Some (JString i) \<Rightarrow> Some i | _ \<Rightarrow> None)
      | _ \<Rightarrow> None)"

text \<open>
  \<^verbatim>\<open>ChatServer\<close>. The dictionary \<^verbatim>\<open>clients\<close> is the list of registered identifiers, in
  insertion order, over a store of connection objects kept under their \<^verbatim>\<open>client_id\<close>: a
  handler keeps its connection object after \<^verbatim>\<open>_disconnect_client\<close> has unregistered
  it. The listening socket is left out.
\<close>

record ChatServer =
  host :: string
  port :: int
  clients :: "string list"
  connections :: "string \<Rightarrow> ClientConnection option"
  server_running :: bool
  packet_loss_rate :: real
  artificial_delay :: real

text \<open>
  \<^verbatim>\<open>_broadcast_message\<close>, with the clock reading \<open>now\<close> and the random number \<open>r\<close> the
  message identifier is made of.
\<close>

definition broadcast_to :: "Message \<Rightarrow> string option \<Rightarrow> ChatServer \<Rightarrow> string \<Rightarrow> ChatServer" where
  "broadcast_to message exclude_client srv cid =
     (case connections srv cid of
        None \<Rightarrow> srv
      | Some conn \<Rightarrow>
          if Some cid \<noteq> exclude_client \<and> running conn
          then srv\<lparr>connections := (connections srv)(cid \<mapsto> send_message conn message)\<rparr>
          else srv)"

definition broadcast_message ::
  "library \<Rightarrow> ChatServer \<Rightarrow> string \<Rightarrow> string option \<Rightarrow> real \<Rightarrow> int \<Rightarrow> ChatServer" where
  "broadcast_message L srv text exclude_client now r =
     (let message = Message_init L (''broadcast_'' @ str_int (py_int now) @ ''_'' @ str_int r)
                      CHAT ''server'' text now []
      in foldl (broadcast_to message exclude_client) srv (clients srv))"

text \<open>\<^verbatim>\<open>_disconnect_client\<close>\<close>

definition disconnect_client ::
  "library \<Rightarrow> ChatServer \<Rightarrow> string \<Rightarrow> real \<Rightarrow> int \<Rightarrow> ChatServer" where
  "disconnect_client L srv cid now r =
     (if cid \<in> set (clients srv) then
        (case connections srv cid of
           None \<Rightarrow> srv
         | Some conn \<Rightarrow>
             (let name = (if username conn \<noteq> [] then username conn else cid);
                  srv1 = (if username conn \<noteq> []
                          then broadcast_message L srv (''*** '' @ name @ '' left the chat ***'')
                                 (Some cid) now r
                          else srv);
                  srv2 = (case connections srv1 cid of
                            None \<Rightarrow> srv1
                          | Some c \<Rightarrow> srv1\<lparr>connections := (connections srv1)(cid \<mapsto> close c)\<rparr>)
              in srv2\<lparr>clients := removeAll cid (clients srv2)\<rparr>))
      else srv)"

text \<open>
  \<^verbatim>\<open>_process_message\<close> for the connection object stored under \<open>cid\<close>, with the clock
  reading \<open>now\<close> and the random numbers of the two message identifiers. The branch for
  \<^verbatim>\<open>JOIN\<close> assigns the content to \<^verbatim>\<open>username\<close>; no branch calls a validator.
\<close>

definition process_message ::
  "library \<Rightarrow> ChatServer \<Rightarrow> string \<Rightarrow> Message \<Rightarrow> real \<Rightarrow> int \<Rightarrow> int \<Rightarrow> ChatServer" where
  "process_message L srv cid message now r_ack r_msg =
     (case connections srv cid of
        None \<Rightarrow> srv
      | Some conn \<Rightarrow>
          (let c1 = conn\<lparr>last_heartbeat := now\<rparr>;
               ack_message = Message_init L (''ack_'' @ str_int (py_int now) @ ''_'' @ str_int r_ack)
                               ACK ''server''
                               (json_dumps L (JObject [(''ack_for'', JString (msg_id message))]))
                               now [];
               c2 = (if msg_type message \<noteq> ACK then send_message c1 ack_message else c1);
               srv1 = srv\<lparr>connections := (connections srv)(cid \<mapsto> c2)\<rparr>
           in case msg_type message of
                JOIN \<Rightarrow>
                  (let c3 = c2\<lparr>username := content message\<rparr>;
                       srv2 = srv1\<lparr>connections := (connections srv1)(cid \<mapsto> c3)\<rparr>
                   in broadcast_message L srv2 (''*** '' @ username c3 @ '' joined the chat ***'')
                        (Some (client_id c3)) now r_msg)
              | CHAT \<Rightarrow>
                  broadcast_message L srv1 (''['' @ username c2 @ '']: '' @ content message)
                    (Some (client_id c2)) now r_msg
              | ACK \<Rightarrow>
                  srv1\<lparr>connections :=
                    (connections srv1)(cid \<mapsto> handle_ack (ack_for_of L) c2 message now)\<rparr>
              | HEARTBEAT \<Rightarrow> srv1
              | LEAVE \<Rightarrow> disconnect_client L srv1 (client_id c2) now r_msg
              | RETRANSMIT \<Rightarrow> srv1))"








section \<open>The username validator of the protocol module\<close>

text \<open>
  \<^verbatim>\<open>validate_username\<close> of \<^verbatim>\<open>chat_protocol.py\<close>, check by check. A string is its UTF-8
  bytes here, so the length counts bytes where Python counts code points; only names
  with a character outside ASCII can tell the difference, and the character check
  rejects those in either reading. No function of the server calls the validator.
\<close>

definition allowed_chars :: "char set" where
  "allowed_chars = set ''abcdefghijklmnopqrstuvwxyzABCDEFGHIJKLMNOPQRSTUVWXYZ0123456789_-''"

definition validate_username :: "string \<Rightarrow> bool" where
  "validate_username name =
     (if name = [] then False
      else if length name < 1 \<or> length name > 32 then False
      else if \<not> list_all (\<lambda>c. c \<in> allowed_chars) name then False
      else if take 1 name = ''-'' then False
      else True)"

section \<open>A concrete library for the examples\<close>

text \<open>
  The examples need the library functions at concrete arguments. \<open>python_library\<close>
  collects definitions that compute what CPython computes on the arguments the examples
  use: SHA-256 as the standard defines it, the text of a float whose value is an integer
  (\<^verbatim>\<open>5.0\<close> for five), and JSON for documents without nesting whose strings are printable
  ASCII. Nothing is proved about these definitions beyond their values at the examples.
\<close>

definition float_str_integral :: "real \<Rightarrow> string" where
  "float_str_integral x = str_int \<lfloor>x\<rfloor> @ ''.0''"

definition json_quote :: "string \<Rightarrow> string" where
  "json_quote s =
     [CHR 0x22] @
     concat (map (\<lambda>c. if c = CHR 0x22 \<or> c = CHR 0x5C then [CHR 0x5C, c] else [c]) s) @
     [CHR 0x22]"

fun join :: "string \<Rightarrow> string list \<Rightarrow> string" where
  "join sep [] = []"
| "join sep [x] = x"
| "join sep (x # y # ys) = x @ sep @ join sep (y # ys)"

text \<open>\<^verbatim>\<open>json.dumps\<close> with the separators \<open>(item_sep, key_sep)\<close>.\<close>

fun json_text :: "string \<Rightarrow> string \<Rightarrow> json \<Rightarrow> string" where
  "json_text item_sep key_sep JNull = ''null''"
| "json_text item_sep key_sep (JBool b) = (if b then ''true'' else ''false'')"
| "json_text item_sep key_sep (JInt i) = str_int i"
| "json_text item_sep key_sep (JFloat x) = float_str_integral x"
| "json_text item_sep key_sep (JString s) = json_quote s"
| "json_text item_sep key_sep (JArray js) =
     ''['' @ join item_sep (map (json_text item_sep key_sep) js) @ '']''"
| "json_text item_sep key_sep (JObject kvs) =
     ''{'' @ join item_sep
              (map (\<lambda>kv. json_quote (fst kv) @ key_sep @ json_text item_sep key_sep (snd kv)) kvs)
     @ ''}''"

text \<open>\<^verbatim>\<open>json.loads\<close> for a scalar or an object of scalars.\<close>

definition is_digit :: "char \<Rightarrow> bool" where
  "is_digit c \<longleftrightarrow> 48 \<le> (of_char c :: nat) \<and> (of_char c :: nat) \<le> 57"

definition nat_of_digits :: "string \<Rightarrow> nat" where
  "nat_of_digits ds = foldl (\<lambda>n c. 10 * n + (of_char c - 48)) 0 ds"

definition skip_ws :: "string \<Rightarrow> string" where
  "skip_ws cs = dropWhile (\<lambda>c. c = CHR '' '') cs"

fun parse_string :: "string \<Rightarrow> string \<Rightarrow> (string \<times> string) option" where
  "parse_string acc [] = None"
| "parse_string acc (c # cs) =
     (if c = CHR 0x22 then Some (rev acc, cs)
      else if c = CHR 0x5C then
        (case cs of
           [] \<Rightarrow> None
         | e # cs' \<Rightarrow> if e = CHR 0x22 \<or> e = CHR 0x5C then parse_string (e # acc) cs' else None)
      else parse_string (c # acc) cs)"

definition parse_number :: "string \<Rightarrow> (json \<times> string) option" where
  "parse_number cs =
     (let neg = (take 1 cs = ''-'');
          cs1 = (if neg then drop 1 cs else cs);
          sgn = (if neg then - 1 else 1 :: int);
          ds = takeWhile is_digit cs1;
          cs2 = dropWhile is_digit cs1
      in if ds = [] then None
         else if take 1 cs2 = ''.'' then
           (let fs = takeWhile is_digit (drop 1 cs2);
                cs3 = dropWhile is_digit (drop 1 cs2)
            in if fs = [] then None
               else Some (JFloat (real_of_int sgn *
                            (real (nat_of_digits ds) + real (nat_of_digits fs) / 10 ^ length fs)),
                          cs3))
         else Some (JInt (sgn * int (nat_of_digits ds)), cs2))"

definition parse_scalar :: "string \<Rightarrow> (json \<times> string) option" where
  "parse_scalar cs =
     (if take 1 cs = [CHR 0x22] then
        (case parse_string [] (drop 1 cs) of
           None \<Rightarrow> None
         | Some (s, rest) \<Rightarrow> Some (JString s, rest))
      else if take 4 cs = ''null'' then Some (JNull, drop 4 cs)
      else if take 4 cs = ''true'' then Some (JBool True, drop 4 cs)
      else if take 5 cs = ''false'' then Some (JBool False, drop 5 cs)
      else parse_number cs)"

text \<open>
  The members of an object, after the opening brace or a comma. The first argument
  bounds the number of members by the length of the text.
\<close>

fun parse_members :: "string \<Rightarrow> (string \<times> json) list \<Rightarrow> string \<Rightarrow> json option" where
  "parse_members [] acc cs = None"
| "parse_members (_ # fuel) acc cs =
     (if take 1 (skip_ws cs) \<noteq> [CHR 0x22] then None
      else
        (case parse_string [] (drop 1 (skip_ws cs)) of
           None \<Rightarrow> None
         | Some (k, r1) \<Rightarrow>
             if take 1 (skip_ws r1) \<noteq> '':'' then None
             else
               (case parse_scalar (skip_ws (drop 1 (skip_ws r1))) of
                  None \<Rightarrow> None
                | Some (v, r2) \<Rightarrow>
                    if take 1 (skip_ws r2) = '','' then
                      parse_members fuel (AList.update k v acc) (drop 1 (skip_ws r2))
                    else if take 1 (skip_ws r2) = ''}'' \<and> skip_ws (drop 1 (skip_ws r2)) = [] then
                      Some (JObject (AList.update k v acc))
                    else None)))"

definition json_parse_flat :: "string \<Rightarrow> json option" where
  "json_parse_flat s =
     (if take 1 (skip_ws s) = ''{'' then
        (if take 1 (skip_ws (drop 1 (skip_ws s))) = ''}''
         then (if skip_ws (drop 1 (skip_ws (drop 1 (skip_ws s)))) = [] then Some (JObject []) else None)
         else parse_members s [] (drop 1 (skip_ws s)))
      else
        (case parse_scalar (skip_ws s) of
           None \<Rightarrow> None
         | Some (v, rest) \<Rightarrow> if skip_ws rest = [] then Some v else None))"


text \<open>
  SHA-256 (FIPS 180-4) on a byte string, as \<^verbatim>\<open>hashlib.sha256(data).hexdigest()\<close> computes
  it: padding, the message schedule, 64 rounds per 512-bit block on 32-bit words, the
  digest in lower-case hexadecimal.
\<close>
definition sha256_K :: "32 word list" where
  "sha256_K =
    [1116352408, 1899447441, 3049323471, 3921009573, 961987163, 1508970993,
     2453635748, 2870763221, 3624381080, 310598401, 607225278, 1426881987,
     1925078388, 2162078206, 2614888103, 3248222580, 3835390401, 4022224774,
     264347078, 604807628, 770255983, 1249150122, 1555081692, 1996064986,
     2554220882, 2821834349, 2952996808, 3210313671, 3336571891, 3584528711,
     113926993, 338241895, 666307205, 773529912, 1294757372, 1396182291,
     1695183700, 1986661051, 2177026350, 2456956037, 2730485921, 2820302411,
     3259730800, 3345764771, 3516065817, 3600352804, 4094571909, 275423344,
     430227734, 506948616, 659060556, 883997877, 958139571, 1322822218,
     1537002063, 1747873779, 1955562222, 2024104815, 2227730452, 2361852424,
     2428436474, 2756734187, 3204031479, 3329325298]"

definition sha256_H0 :: "32 word list" where
  "sha256_H0 =
    [1779033703, 3144134277, 1013904242, 2773480762, 1359893119, 2600822924,
     528734635, 1541459225]"

definition rotr :: "nat \<Rightarrow> 32 word \<Rightarrow> 32 word" where
  "rotr n x = or (drop_bit n x) (push_bit (32 - n) x)"

definition small_sigma0 :: "32 word \<Rightarrow> 32 word" where
  "small_sigma0 x = xor (xor (rotr 7 x) (rotr 18 x)) (drop_bit 3 x)"

definition small_sigma1 :: "32 word \<Rightarrow> 32 word" where
  "small_sigma1 x = xor (xor (rotr 17 x) (rotr 19 x)) (drop_bit 10 x)"

definition big_sigma0 :: "32 word \<Rightarrow> 32 word" where
  "big_sigma0 x = xor (xor (rotr 2 x) (rotr 13 x)) (rotr 22 x)"

definition big_sigma1 :: "32 word \<Rightarrow> 32 word" where
  "big_sigma1 x = xor (xor (rotr 6 x) (rotr 11 x)) (rotr 25 x)"

definition sha256_pad :: "nat list \<Rightarrow> nat list" where
  "sha256_pad bs =
     (let l = length bs; z = (119 - l mod 64) mod 64
      in bs @ [128] @ replicate z 0 @
         map (\<lambda>s. unat (take_bit 8 (drop_bit s (of_nat (8 * l) :: 64 word))))
           [56, 48, 40, 32, 24, 16, 8, 0])"

fun be_words :: "nat list \<Rightarrow> 32 word list" where
  "be_words (a # b # c # d # bs) = of_nat (((a * 256 + b) * 256 + c) * 256 + d) # be_words bs"
| "be_words _ = []"

fun schedule :: "nat \<Rightarrow> 32 word list \<Rightarrow> 32 word list" where
  "schedule 0 ws = ws"
| "schedule (Suc n) ws =
     schedule n ((small_sigma1 (ws ! 1) + ws ! 6 + small_sigma0 (ws ! 14) + ws ! 15) # ws)"

type_synonym sha_state =
  "32 word \<times> 32 word \<times> 32 word \<times> 32 word \<times> 32 word \<times> 32 word \<times> 32 word \<times> 32 word"

definition sha_round :: "32 word \<times> 32 word \<Rightarrow> sha_state \<Rightarrow> sha_state" where
  "sha_round kw s =
     (case s of (a, b, c, d, e, f, g, h) \<Rightarrow>
        (let t1 = h + big_sigma1 e + xor (and e f) (and (not e) g) + fst kw + snd kw;
             t2 = big_sigma0 a + xor (xor (and a b) (and a c)) (and b c)
         in (t1 + t2, a, b, c, d + t1, e, f, g)))"

definition compress :: "32 word list \<Rightarrow> 32 word list \<Rightarrow> 32 word list" where
  "compress hs block =
     (case fold sha_round (zip sha256_K (rev (schedule 48 (rev block))))
             (hs ! 0, hs ! 1, hs ! 2, hs ! 3, hs ! 4, hs ! 5, hs ! 6, hs ! 7) of
        (a, b, c, d, e, f, g, h) \<Rightarrow> map2 (+) hs [a, b, c, d, e, f, g, h])"

fun blocks :: "32 word list \<Rightarrow> 32 word list \<Rightarrow> 32 word list" where
  "blocks hs ws = (if length ws < 16 then hs else blocks (compress hs (take 16 ws)) (drop 16 ws))"

declare blocks.simps [simp del]

definition hex_digit :: "nat \<Rightarrow> char" where
  "hex_digit n = ''0123456789abcdef'' ! n"

definition hex_word :: "32 word \<Rightarrow> string" where
  "hex_word w = map (\<lambda>s. hex_digit (unat (take_bit 4 (drop_bit s w)))) [28, 24, 20, 16, 12, 8, 4, 0]"

definition sha256_hex :: "string \<Rightarrow> string" where
  "sha256_hex s =
     concat (map hex_word (blocks sha256_H0 (be_words (sha256_pad (map of_char s)))))"

definition python_library :: library where
  "python_library =
     \<lparr>sha256_hexdigest = sha256_hex, str_float = float_str_integral,
      json_dumps = json_text '', '' '': '', json_dumps_compact = json_text '','' '':'',
      json_loads = json_parse_flat\<rparr>"

section \<open>The shared protocol module\<close>

text \<open>
  \<^verbatim>\<open>MessageType\<close> and the dataclass \<^verbatim>\<open>Message\<close> of \<^verbatim>\<open>chat_protocol.py\<close>: nine message
  types and eight fields. The server's classes of the same names are declared above, so
  these carry the prefix \<open>Proto_\<close> (constructors) and \<open>proto_\<close> (fields).
\<close>

datatype Proto_MessageType =
  Proto_CHAT | Proto_ACK | Proto_HEARTBEAT | Proto_JOIN | Proto_LEAVE | Proto_RETRANSMIT
  | Proto_SERVER_INFO | Proto_USER_LIST | Proto_PRIVATE_MESSAGE

fun Proto_MessageType_value :: "Proto_MessageType \<Rightarrow> string" where
  "Proto_MessageType_value Proto_CHAT = ''chat''"
| "Proto_MessageType_value Proto_ACK = ''ack''"
| "Proto_MessageType_value Proto_HEARTBEAT = ''heartbeat''"
| "Proto_MessageType_value Proto_JOIN = ''join''"
| "Proto_MessageType_value Proto_LEAVE = ''leave''"
| "Proto_MessageType_value Proto_RETRANSMIT = ''retransmit''"
| "Proto_MessageType_value Proto_SERVER_INFO = ''server_info''"
| "Proto_MessageType_value Proto_USER_LIST = ''user_list''"
| "Proto_MessageType_value Proto_PRIVATE_MESSAGE = ''private_message''"

record Proto_Message =
  proto_msg_id :: string
  proto_msg_type :: Proto_MessageType
  proto_sender :: string
  proto_content :: string
  proto_timestamp :: real
  proto_checksum :: string
  proto_priority :: int
  proto_sequence_number :: int

text \<open>
  \<^verbatim>\<open>Message.calculate_checksum\<close> of the protocol module: the f-string puts the seven
  fields side by side, and the first 16 characters of the hexadecimal digest are kept.
\<close>

definition proto_checksum_data :: "library \<Rightarrow> Proto_Message \<Rightarrow> string" where
  "proto_checksum_data L m =
     proto_msg_id m @ Proto_MessageType_value (proto_msg_type m) @ proto_sender m @
     proto_content m @ str_float L (proto_timestamp m) @ str_int (proto_priority m) @
     str_int (proto_sequence_number m)"

definition proto_calculate_checksum :: "library \<Rightarrow> Proto_Message \<Rightarrow> string" where
  "proto_calculate_checksum L m = take 16 (sha256_hexdigest L (proto_checksum_data L m))"

definition proto_is_valid :: "library \<Rightarrow> Proto_Message \<Rightarrow> bool" where
  "proto_is_valid L m \<longleftrightarrow>
     (let expected_checksum = proto_calculate_checksum L m in proto_checksum m = expected_checksum)"

text \<open>\<^verbatim>\<open>__post_init__\<close>\<close>

definition proto_post_init :: "library \<Rightarrow> Proto_Message \<Rightarrow> Proto_Message" where
  "proto_post_init L m =
     (if proto_checksum m = [] then m\<lparr>proto_checksum := proto_calculate_checksum L m\<rparr> else m)"

text \<open>
  The checksum as the specification words it: the fields, each turned into a string, are
  concatenated without separators, hashed, and the digest cut to 16 hexadecimal digits.
\<close>

definition spec_checksum :: "library \<Rightarrow> Proto_Message \<Rightarrow> string" where
  "spec_checksum L m =
     take 16 (sha256_hexdigest L (concat
       [proto_msg_id m, Proto_MessageType_value (proto_msg_type m), proto_sender m,
        proto_content m, str_float L (proto_timestamp m), str_int (proto_priority m),
        str_int (proto_sequence_number m)]))"

text \<open>
  The same message in the server's class, for the six message types the server knows:
  the fields the two classes share, \<^verbatim>\<open>priority\<close> and \<^verbatim>\<open>sequence_number\<close> dropped.
\<close>

fun server_MessageType :: "Proto_MessageType \<Rightarrow> MessageType option" where
  "server_MessageType Proto_CHAT = Some CHAT"
| "server_MessageType Proto_ACK = Some ACK"
| "server_MessageType Proto_HEARTBEAT = Some HEARTBEAT"
| "server_MessageType Proto_JOIN = Some JOIN"
| "server_MessageType Proto_LEAVE = Some LEAVE"
| "server_MessageType Proto_RETRANSMIT = Some RETRANSMIT"
| "server_MessageType _ = None"

definition server_Message :: "Proto_Message \<Rightarrow> Message option" where
  "server_Message m =
     (case server_MessageType (proto_msg_type m) of
        None \<Rightarrow> None
      | Some t \<Rightarrow>
          Some \<lparr>msg_id = proto_msg_id m, msg_type = t, sender = proto_sender m,
                content = proto_content m, timestamp = proto_timestamp m,
                checksum = proto_checksum m\<rparr>)"

text \<open>
  \<^verbatim>\<open>Message.to_bytes\<close>: \<^verbatim>\<open>asdict\<close> lists the fields in declaration order, the message type
  is replaced by its value, the dictionary is dumped with the compact separators, and
  the length is packed in four bytes, big-endian. \<^verbatim>\<open>struct.pack\<close> raises for a length of
  \<open>2\<^sup>3\<^sup>2\<close> or more.
\<close>

datatype error = ValueError | TypeError | StructError | IllTyped

definition to_dict :: "Proto_Message \<Rightarrow> json" where
  "to_dict m =
     JObject
       [(''msg_id'', JString (proto_msg_id m)),
        (''msg_type'', JString (Proto_MessageType_value (proto_msg_type m))),
        (''sender'', JString (proto_sender m)),
        (''content'', JString (proto_content m)),
        (''timestamp'', JFloat (proto_timestamp m)),
        (''checksum'', JString (proto_checksum m)),
        (''priority'', JInt (proto_priority m)),
        (''sequence_number'', JInt (proto_sequence_number m))]"

definition pack_u32 :: "nat \<Rightarrow> string" where
  "pack_u32 n =
     [char_of (n div 16777216), char_of (n div 65536), char_of (n div 256), char_of n]"

definition unpack_u32 :: "string \<Rightarrow> nat" where
  "unpack_u32 bs =
     ((of_char (bs ! 0) * 256 + of_char (bs ! 1)) * 256 + of_char (bs ! 2)) * 256 + of_char (bs ! 3)"

definition to_bytes :: "library \<Rightarrow> Proto_Message \<Rightarrow> error + string" where
  "to_bytes L m =
     (let json_data = json_dumps_compact L (to_dict m)
      in if length json_data < 4294967296
         then Inr (pack_u32 (length json_data) @ json_data)
         else Inl StructError)"

text \<open>
  \<^verbatim>\<open>Message.from_bytes\<close>. A text that does not parse and a missing \<^verbatim>\<open>msg_type\<close> are turned
  into \<^verbatim>\<open>ValueError\<close>; the enumeration raises \<^verbatim>\<open>ValueError\<close> for a value it does not have;
  a document that is no object, a key that is no field and a missing field without
  default raise \<^verbatim>\<open>TypeError\<close>, which passes through. The dataclass does not check the
  types of the values: where the source would build a message with, say, a number for
  \<^verbatim>\<open>sender\<close>, the model answers \<open>IllTyped\<close>, such objects having no counterpart in the
  record.
\<close>

definition Proto_MessageType_of :: "json \<Rightarrow> Proto_MessageType option" where
  "Proto_MessageType_of v =
     (case v of
        JString s \<Rightarrow>
          find (\<lambda>t. Proto_MessageType_value t = s)
            [Proto_CHAT, Proto_ACK, Proto_HEARTBEAT, Proto_JOIN, Proto_LEAVE, Proto_RETRANSMIT,
             Proto_SERVER_INFO, Proto_USER_LIST, Proto_PRIVATE_MESSAGE]
      | _ \<Rightarrow> None)"

definition field_names :: "string list" where
  "field_names =
     [''msg_id'', ''msg_type'', ''sender'', ''content'', ''timestamp'', ''checksum'', ''priority'',
      ''sequence_number'']"

definition required_fields :: "string list" where
  "required_fields = [''msg_id'', ''sender'', ''content'', ''timestamp'']"

fun str_field :: "json option \<Rightarrow> string \<Rightarrow> string option" where
  "str_field None dflt = Some dflt"
| "str_field (Some (JString s)) dflt = Some s"
| "str_field (Some _) dflt = None"

fun int_field :: "json option \<Rightarrow> int \<Rightarrow> int option" where
  "int_field None dflt = Some dflt"
| "int_field (Some (JInt i)) dflt = Some i"
| "int_field (Some _) dflt = None"

fun float_field :: "json option \<Rightarrow> real option" where
  "float_field (Some (JFloat x)) = Some x"
| "float_field _ = None"

definition from_dict :: "library \<Rightarrow> (string \<times> json) list \<Rightarrow> error + Proto_Message" where
  "from_dict L kvs =
     (case map_of kvs ''msg_type'' of
        None \<Rightarrow> Inl ValueError
      | Some v \<Rightarrow>
          (case Proto_MessageType_of v of
             None \<Rightarrow> Inl ValueError
           | Some t \<Rightarrow>
               if \<not> list_all (\<lambda>k. k \<in> set field_names) (map fst kvs) then Inl TypeError
               else if \<not> list_all (\<lambda>k. map_of kvs k \<noteq> None) required_fields then Inl TypeError
               else
                 (case (str_field (map_of kvs ''msg_id'') [], str_field (map_of kvs ''sender'') [],
                        str_field (map_of kvs ''content'') [],
                        float_field (map_of kvs ''timestamp''),
                        str_field (map_of kvs ''checksum'') [],
                        int_field (map_of kvs ''priority'') 1,
                        int_field (map_of kvs ''sequence_number'') 0) of
                    (Some i, Some s, Some c, Some ts, Some cs, Some p, Some n) \<Rightarrow>
                      Inr (proto_post_init L
                        \<lparr>proto_msg_id = i, proto_msg_type = t, proto_sender = s,
                         proto_content = c, proto_timestamp = ts, proto_checksum = cs,
                         proto_priority = p, proto_sequence_number = n\<rparr>)
                  | _ \<Rightarrow> Inl IllTyped)))"

definition from_bytes :: "library \<Rightarrow> string \<Rightarrow> error + Proto_Message" where
  "from_bytes L data =
     (case json_loads L data of
        None \<Rightarrow> Inl ValueError
      | Some (JObject kvs) \<Rightarrow> from_dict L kvs
      | Some _ \<Rightarrow> Inl TypeError)"

text \<open>
  The receiver's cut of a frame: \<^verbatim>\<open>msg_length = struct.unpack('!I', buffer[:4])[0]\<close> and
  \<^verbatim>\<open>msg_data = buffer[4:4 + msg_length]\<close>.
\<close>

definition frame_payload :: "string \<Rightarrow> string" where
  "frame_payload buffer =
     (let msg_length = unpack_u32 (take 4 buffer) in take msg_length (drop 4 buffer))"

section \<open>Examples\<close>

text \<open>
  A chat message the server sends, and the acknowledgement a peer \<open>bob\<close> returns for it
  at time 5; both as the constructor builds them, checksum included.
\<close>

definition example_chat :: Message where
  "example_chat = Message_init python_library ''m1'' CHAT ''server'' ''hi'' 0 []"

definition example_ack :: Message where
  "example_ack =
     Message_init python_library ''a1'' ACK ''bob''
       (json_dumps python_library (JObject [(''ack_for'', JString ''m1'')])) 5 []"

text \<open>
  A server with one fresh connection \<open>c1\<close>, and the \<^verbatim>\<open>JOIN\<close> message of a client that
  calls itself \<open>name\<close>.
\<close>

definition example_server :: ChatServer where
  "example_server =
     \<lparr>host = ''localhost'', port = 8888, clients = [''c1''],
      connections = [''c1'' \<mapsto> ClientConnection_init ''c1'' 0],
      server_running = True, packet_loss_rate = 0, artificial_delay = 0\<rparr>"

definition example_join :: "string \<Rightarrow> Message" where
  "example_join name = Message_init python_library ''j1'' JOIN name name 1 []"

text \<open>
  A chat message of the protocol module, with the checksum its fields have, and the
  same message in the server's class.
\<close>

definition example_proto_message :: Proto_Message where
  "example_proto_message =
     \<lparr>proto_msg_id = ''m1'', proto_msg_type = Proto_CHAT, proto_sender = ''alice'',
      proto_content = ''hi'', proto_timestamp = 0, proto_checksum = ''afac6880b069849b'',
      proto_priority = 1, proto_sequence_number = 0\<rparr>"

definition example_server_message :: Message where
  "example_server_message =
     \<lparr>msg_id = ''m1'', msg_type = CHAT, sender = ''alice'', content = ''hi'', timestamp = 0,
      checksum = ''afac6880b069849b''\<rparr>"





section \<open>Invariants\<close>

text \<open>The bounds every reachable controller state satisfies.\<close>

definition cc_inv :: "CongestionControl \<Rightarrow> bool" where
  "cc_inv c \<longleftrightarrow> cwnd c \<ge> 1 \<and> ssthresh c \<ge> 2 \<and> rto c \<ge> 1"

text \<open>
  How the connection's counter \<^verbatim>\<open>expected_ack\<close> and the controller's \<^verbatim>\<open>last_ack\<close> and
  \<^verbatim>\<open>duplicate_acks\<close> stay related.
\<close>

definition ack_inv :: "ClientConnection \<Rightarrow> bool" where
  "ack_inv conn \<longleftrightarrow>
     state (congestion_control conn) \<noteq> FAST_RECOVERY \<and>
     0 \<le> duplicate_acks (congestion_control conn) \<and>
     duplicate_acks (congestion_control conn) \<le> 1 \<and>
     0 \<le> expected_ack conn \<and>
     last_ack (congestion_control conn) = max 0 (expected_ack conn - 1) \<and>
     (duplicate_acks (congestion_control conn) = 1 \<longrightarrow> expected_ack conn = 1)"

section \<open>Properties of the controller\<close>

lemma update_rtt_keeps [simp]:
  "cwnd (update_rtt c rtt) = cwnd c"
  "ssthresh (update_rtt c rtt) = ssthresh c"
  "state (update_rtt c rtt) = state c"
  "duplicate_acks (update_rtt c rtt) = duplicate_acks c"
  "last_ack (update_rtt c rtt) = last_ack c"
  by (simp_all add: update_rtt_def Let_def)

text \<open>
  Claim C6. A timeout taken in any controller state sets \<^verbatim>\<open>ssthresh\<close> to
  \<open>max (cwnd / 2) 2\<close> of the old window, \<^verbatim>\<open>cwnd\<close> to 1 and \<^verbatim>\<open>duplicate_acks\<close> to 0,
  doubles \<^verbatim>\<open>rto\<close> and puts the controller in \<^verbatim>\<open>SLOW_START\<close>; the last acknowledgement
  number and the estimator are left as they were.
\<close>

theorem on_timeout_effect:
  "ssthresh (on_timeout c) = max (cwnd c / 2) 2 \<and>
   cwnd (on_timeout c) = 1 \<and>
   duplicate_acks (on_timeout c) = 0 \<and>
   rto (on_timeout c) = 2 * rto c \<and>
   state (on_timeout c) = SLOW_START \<and>
   last_ack (on_timeout c) = last_ack c \<and>
   srtt (on_timeout c) = srtt c \<and>
   rttvar (on_timeout c) = rttvar c \<and>
   rtt_samples (on_timeout c) = rtt_samples c"
  by (simp add: on_timeout_def Let_def)

lemma on_dup_ack:
  "duplicate_acks (on_ack_received c (last_ack c) rtt) = duplicate_acks c + 1"
  "last_ack (on_ack_received c (last_ack c) rtt) = last_ack c"
  "state (on_ack_received c (last_ack c) rtt) =
     (if duplicate_acks c = 2 then FAST_RECOVERY else state c)"
  "ssthresh (on_ack_received c (last_ack c) rtt) =
     (if duplicate_acks c = 2 then max (cwnd c / 2) 2 else ssthresh c)"
  "cwnd (on_ack_received c (last_ack c) rtt) =
     (if duplicate_acks c = 2 then max (cwnd c / 2) 2 + 3
      else if state c = FAST_RECOVERY then cwnd c + 1 else cwnd c)"
  by (simp_all add: on_ack_received_def Let_def)

lemma dup_acks_in_recovery:
  "state c = FAST_RECOVERY \<Longrightarrow> 3 \<le> duplicate_acks c \<Longrightarrow>
   state (dup_acks c rtts) = FAST_RECOVERY \<and>
   ssthresh (dup_acks c rtts) = ssthresh c \<and>
   cwnd (dup_acks c rtts) = cwnd c + real (length rtts)"
  by (induction rtts arbitrary: c) (simp_all add: on_dup_ack)

lemma dup_acks_Cons_2:
  "duplicate_acks c = 2 \<Longrightarrow>
   state (dup_acks c (r # rtts)) = FAST_RECOVERY \<and>
   ssthresh (dup_acks c (r # rtts)) = max (cwnd c / 2) 2 \<and>
   cwnd (dup_acks c (r # rtts)) = max (cwnd c / 2) 2 + 3 + real (length rtts)"
  using dup_acks_in_recovery [of "on_ack_received c (last_ack c) r" rtts]
  by (simp add: on_dup_ack)

text \<open>
  Claim C4. Start outside \<^verbatim>\<open>FAST_RECOVERY\<close> with fewer than three duplicates counted (the
  count is 0 after every new acknowledgement and every timeout) and process a run of
  duplicate acknowledgements. The controller is in \<^verbatim>\<open>FAST_RECOVERY\<close> after the run
  exactly when the run has brought the count of consecutive duplicates to three; before
  that, state, window and threshold are untouched. The acknowledgement that makes the
  count three sets \<^verbatim>\<open>ssthresh\<close> to \<open>max (cwnd / 2) 2\<close> and \<^verbatim>\<open>cwnd\<close> to \<open>ssthresh + 3\<close>, and
  every further duplicate adds exactly 1 to \<^verbatim>\<open>cwnd\<close>.
\<close>

theorem fast_recovery_on_third_duplicate:
  assumes "state c \<noteq> FAST_RECOVERY" and "0 \<le> duplicate_acks c" and "duplicate_acks c < 3"
  shows "(state (dup_acks c rtts) = FAST_RECOVERY \<longleftrightarrow> 3 \<le> duplicate_acks c + int (length rtts)) \<and>
         (duplicate_acks c + int (length rtts) < 3 \<longrightarrow>
            state (dup_acks c rtts) = state c \<and> cwnd (dup_acks c rtts) = cwnd c \<and>
            ssthresh (dup_acks c rtts) = ssthresh c) \<and>
         (3 \<le> duplicate_acks c + int (length rtts) \<longrightarrow>
            ssthresh (dup_acks c rtts) = max (cwnd c / 2) 2 \<and>
            cwnd (dup_acks c rtts) =
              ssthresh (dup_acks c rtts) + 3 + real_of_int (duplicate_acks c + int (length rtts) - 3))"
  using assms
proof (induction rtts arbitrary: c)
  case Nil
  then show ?case by simp
next
  case (Cons r rtts)
  show ?case
  proof (cases "duplicate_acks c = 2")
    case True
    then show ?thesis using dup_acks_Cons_2 [of c r rtts] by simp
  next
    case False
    let ?c = "on_ack_received c (last_ack c) r"
    from False Cons.prems have "state ?c \<noteq> FAST_RECOVERY" "0 \<le> duplicate_acks ?c" "duplicate_acks ?c < 3"
      by (simp_all add: on_dup_ack)
    from Cons.IH [OF this] False Cons.prems show ?thesis
      by (simp add: on_dup_ack add.assoc)
  qed
qed

theorem fast_recovery_on_third_duplicate_witness:
  "state (dup_acks (CongestionControl_init\<lparr>cwnd := 10\<rparr>) [1, 1]) = SLOW_START \<and>
   cwnd (dup_acks (CongestionControl_init\<lparr>cwnd := 10\<rparr>) [1, 1]) = 10 \<and>
   state (dup_acks (CongestionControl_init\<lparr>cwnd := 10\<rparr>) [1, 1, 1]) = FAST_RECOVERY \<and>
   ssthresh (dup_acks (CongestionControl_init\<lparr>cwnd := 10\<rparr>) [1, 1, 1]) = 5 \<and>
   cwnd (dup_acks (CongestionControl_init\<lparr>cwnd := 10\<rparr>) [1, 1, 1]) = 8 \<and>
   cwnd (dup_acks (CongestionControl_init\<lparr>cwnd := 10\<rparr>) [1, 1, 1, 1, 1]) = 10"
  using fast_recovery_on_third_duplicate [of "CongestionControl_init\<lparr>cwnd := 10\<rparr>" "[1, 1]"]
    fast_recovery_on_third_duplicate [of "CongestionControl_init\<lparr>cwnd := 10\<rparr>" "[1, 1, 1]"]
    fast_recovery_on_third_duplicate [of "CongestionControl_init\<lparr>cwnd := 10\<rparr>" "[1, 1, 1, 1, 1]"]
  by (simp add: CongestionControl_init_def)

lemma on_new_ack_slow_start:
  assumes "state c = SLOW_START" and "ack_num > last_ack c"
  shows "cwnd (on_ack_received c ack_num rtt) = cwnd c + 1"
    and "ssthresh (on_ack_received c ack_num rtt) = ssthresh c"
    and "state (on_ack_received c ack_num rtt) =
           (if cwnd c + 1 \<ge> ssthresh c then CONGESTION_AVOIDANCE else SLOW_START)"
    and "duplicate_acks (on_ack_received c ack_num rtt) = 0"
    and "last_ack (on_ack_received c ack_num rtt) = ack_num"
  using assms by (simp_all add: on_ack_received_def Let_def)

text \<open>
  Claim C5. For every \<open>k\<close>, a run of \<open>k\<close> new acknowledgements each of which finds the
  controller in \<^verbatim>\<open>SLOW_START\<close> raises \<^verbatim>\<open>cwnd\<close> by exactly \<open>k\<close> and leaves \<^verbatim>\<open>ssthresh\<close>
  alone; after the last increment the controller is in \<^verbatim>\<open>CONGESTION_AVOIDANCE\<close> exactly
  when \<open>cwnd \<ge> ssthresh\<close> holds, and still in \<^verbatim>\<open>SLOW_START\<close> otherwise.
\<close>

theorem slow_start_growth:
  assumes "new_acks_in_slow_start c acks"
  shows "cwnd (process_acks c acks) = cwnd c + real (length acks) \<and>
         ssthresh (process_acks c acks) = ssthresh c \<and>
         (acks \<noteq> [] \<longrightarrow>
            state (process_acks c acks) =
              (if cwnd (process_acks c acks) \<ge> ssthresh c then CONGESTION_AVOIDANCE else SLOW_START))"
  using assms
proof (induction acks arbitrary: c)
  case Nil
  then show ?case by simp
next
  case (Cons a acks)
  obtain ack_num rtt where a: "a = (ack_num, rtt)" by (cases a)
  let ?c = "on_ack_received c ack_num rtt"
  from Cons.prems a have ss: "state c = SLOW_START" and new: "ack_num > last_ack c"
    and rest: "new_acks_in_slow_start ?c acks" by simp_all
  note step = on_new_ack_slow_start [OF ss new, of rtt]
  from Cons.IH [OF rest] step a show ?case
    by (cases acks) (simp_all add: add.assoc)
qed

theorem slow_start_growth_witness:
  "new_acks_in_slow_start (CongestionControl_init\<lparr>ssthresh := 4\<rparr>) [(1, 1), (2, 1), (5, 1)] \<and>
   cwnd (process_acks (CongestionControl_init\<lparr>ssthresh := 4\<rparr>) [(1, 1), (2, 1), (5, 1)]) = 4 \<and>
   state (process_acks (CongestionControl_init\<lparr>ssthresh := 4\<rparr>) [(1, 1), (2, 1), (5, 1)])
     = CONGESTION_AVOIDANCE \<and>
   new_acks_in_slow_start (CongestionControl_init\<lparr>ssthresh := 4\<rparr>) [(1, 1), (2, 1)] \<and>
   cwnd (process_acks (CongestionControl_init\<lparr>ssthresh := 4\<rparr>) [(1, 1), (2, 1)]) = 3 \<and>
   state (process_acks (CongestionControl_init\<lparr>ssthresh := 4\<rparr>) [(1, 1), (2, 1)]) = SLOW_START"
proof -
  have a: "new_acks_in_slow_start (CongestionControl_init\<lparr>ssthresh := 4\<rparr>) [(1, 1), (2, 1), (5, 1)]"
    by (simp add: CongestionControl_init_def on_ack_received_def Let_def)
  have b: "new_acks_in_slow_start (CongestionControl_init\<lparr>ssthresh := 4\<rparr>) [(1, 1), (2, 1)]"
    by (simp add: CongestionControl_init_def on_ack_received_def Let_def)
  show ?thesis
    using a b slow_start_growth [OF a] slow_start_growth [OF b]
    by (simp add: CongestionControl_init_def)
qed

lemma samples_of_append: "samples_of (evs @ evs') = samples_of evs @ samples_of evs'"
  by (induction evs rule: samples_of.induct) simp_all

lemma rtt_samples_update_rtt:
  "rtt_samples (update_rtt c rtt) =
     (if length (rtt_samples c) \<ge> 100 then tl (rtt_samples c @ [rtt]) else rtt_samples c @ [rtt])"
  by (simp add: update_rtt_def Let_def)

lemma rto_update_rtt: "rto (update_rtt c rtt) \<ge> 1"
  by (simp add: update_rtt_def Let_def)

lemma last_n_snoc:
  "last_n 100 (xs @ [x]) =
     (if length (last_n 100 xs) \<ge> 100 then tl (last_n 100 xs @ [x]) else last_n 100 xs @ [x])"
proof (cases "100 \<le> length xs")
  case True
  let ?k = "length xs - 100"
  from True have ne: "drop ?k xs \<noteq> []" by simp
  from True have k: "length xs - 99 = Suc ?k" by arith
  from True have "last_n 100 (xs @ [x]) = drop (Suc ?k) xs @ [x]"
    by (simp add: last_n_def k)
  also have "\<dots> = tl (drop ?k xs) @ [x]"
    by (simp only: tl_drop drop_Suc)
  also have "\<dots> = tl (drop ?k xs @ [x])"
    using ne by (rule tl_append2 [symmetric])
  finally show ?thesis using True by (simp add: last_n_def)
next
  case False
  then show ?thesis by (simp add: last_n_def)
qed

lemma cc_inv_update_rtt: "cc_inv c \<Longrightarrow> cc_inv (update_rtt c rtt)"
  by (simp add: cc_inv_def rto_update_rtt)

lemma cwnd_additive_increase: "1 \<le> (w::real) \<Longrightarrow> 1 \<le> w + 1 / w"
proof -
  assume "1 \<le> w"
  then have "0 \<le> 1 / w" by simp
  with \<open>1 \<le> w\<close> show ?thesis by linarith
qed

lemma cc_inv_on_ack_received: "cc_inv c \<Longrightarrow> cc_inv (on_ack_received c ack_num rtt)"
  using rto_update_rtt [of c rtt]
  by (simp add: cc_inv_def on_ack_received_def Let_def cwnd_additive_increase)

lemma cc_inv_on_timeout: "cc_inv c \<Longrightarrow> cc_inv (on_timeout c)"
  by (simp add: cc_inv_def on_timeout_def Let_def)

lemma rtt_samples_on_ack_received:
  "rtt_samples (on_ack_received c ack_num rtt) = rtt_samples (update_rtt c rtt)"
  by (simp add: on_ack_received_def Let_def)

lemma rtt_samples_on_timeout: "rtt_samples (on_timeout c) = rtt_samples c"
  by (simp add: on_timeout_def Let_def)

lemma cc_run_snoc: "cc_run (evs @ [e]) = cc_step (cc_run evs) e"
  by (simp add: cc_run_def)

lemma cc_run_inv: "cc_inv (cc_run evs)"
proof (induction evs rule: rev_induct)
  case Nil
  show ?case by (simp add: cc_run_def cc_inv_def CongestionControl_init_def)
next
  case (snoc e evs)
  then show ?case
    by (cases e) (simp_all add: cc_run_snoc cc_inv_on_ack_received cc_inv_on_timeout)
qed

lemma cc_run_samples: "rtt_samples (cc_run evs) = last_n 100 (samples_of evs)"
proof (induction evs rule: rev_induct)
  case Nil
  show ?case by (simp add: cc_run_def last_n_def CongestionControl_init_def)
next
  case (snoc e evs)
  then show ?case
    by (cases e)
      (simp_all add: cc_run_snoc samples_of_append rtt_samples_on_ack_received
        rtt_samples_update_rtt rtt_samples_on_timeout last_n_snoc)
qed

text \<open>
  Claim C9. After any sequence of \<^verbatim>\<open>on_ack_received\<close> and \<^verbatim>\<open>on_timeout\<close> events on a
  fresh controller, \<open>cwnd \<ge> 1\<close>, \<open>ssthresh \<ge> 2\<close>, \<open>rto \<ge> 1\<close>, the state is one of the three
  enumerators, and the sample window holds at most 100 samples: exactly the last 100 fed
  to the estimator, in order, so that the oldest is the one evicted.
\<close>

theorem controller_invariant:
  "cwnd (cc_run evs) \<ge> 1 \<and> ssthresh (cc_run evs) \<ge> 2 \<and> rto (cc_run evs) \<ge> 1 \<and>
   (state (cc_run evs) = SLOW_START \<or> state (cc_run evs) = CONGESTION_AVOIDANCE \<or>
    state (cc_run evs) = FAST_RECOVERY) \<and>
   length (rtt_samples (cc_run evs)) \<le> 100 \<and>
   rtt_samples (cc_run evs) = last_n 100 (samples_of evs)"
proof -
  have "cc_inv (cc_run evs)" by (rule cc_run_inv)
  moreover have "rtt_samples (cc_run evs) = last_n 100 (samples_of evs)" by (rule cc_run_samples)
  moreover have "length (last_n 100 (samples_of evs)) \<le> 100" by (simp add: last_n_def)
  moreover have "state (cc_run evs) = SLOW_START \<or> state (cc_run evs) = CONGESTION_AVOIDANCE \<or>
    state (cc_run evs) = FAST_RECOVERY" by (cases "state (cc_run evs)") simp_all
  ultimately show ?thesis by (simp add: cc_inv_def)
qed

text \<open>
  The count of duplicates tells the state: in every state a fresh controller can reach,
  the count is below three outside \<^verbatim>\<open>FAST_RECOVERY\<close> and at least three inside.
\<close>

lemma dup_inv_on_ack_received:
  assumes "if state c = FAST_RECOVERY then 3 \<le> duplicate_acks c
           else 0 \<le> duplicate_acks c \<and> duplicate_acks c < 3"
  shows "if state (on_ack_received c a r) = FAST_RECOVERY then 3 \<le> duplicate_acks (on_ack_received c a r)
         else 0 \<le> duplicate_acks (on_ack_received c a r) \<and> duplicate_acks (on_ack_received c a r) < 3"
  using assms by (auto simp: on_ack_received_def Let_def split: if_splits)

lemma cc_run_duplicate_acks:
  "if state (cc_run evs) = FAST_RECOVERY then 3 \<le> duplicate_acks (cc_run evs)
   else 0 \<le> duplicate_acks (cc_run evs) \<and> duplicate_acks (cc_run evs) < 3"
proof (induction evs rule: rev_induct)
  case Nil
  show ?case by (simp add: cc_run_def CongestionControl_init_def)
next
  case (snoc e evs)
  show ?case
  proof (cases e)
    case (Ack a r)
    with dup_inv_on_ack_received [OF snoc] show ?thesis by (simp add: cc_run_snoc)
  next
    case Timeout
    then show ?thesis by (simp add: cc_run_snoc on_timeout_def Let_def)
  qed
qed

section \<open>Values of the concrete library\<close>

lemma replicate_numeral_unfold: "replicate (numeral k) x = x # replicate (numeral k - 1) x"
  by (simp add: numeral_eq_Suc)

lemma schedule_numeral:
  "schedule (numeral k) ws =
     schedule (numeral k - 1) ((small_sigma1 (ws ! 1) + ws ! 6 + small_sigma0 (ws ! 14) + ws ! 15) # ws)"
  by (simp add: numeral_eq_Suc)

lemma sha256_H0_state:
  "(sha256_H0 ! 0, sha256_H0 ! 1, sha256_H0 ! 2, sha256_H0 ! 3,
    sha256_H0 ! 4, sha256_H0 ! 5, sha256_H0 ! 6, sha256_H0 ! 7) =
   (1779033703, 3144134277, 1013904242, 2773480762, 1359893119, 2600822924, 528734635, 1541459225)"
  by (simp add: sha256_H0_def)

text \<open>The test vector of the standard.\<close>

lemma sha256_abc_pad:
  "sha256_pad
     [97, 98, 99] =
     [97, 98, 99, 128, 0, 0, 0, 0, 0, 0, 0, 0, 0, 0, 0, 0, 0, 0, 0, 0, 0, 0, 0, 0, 0, 0, 0,
     0, 0, 0, 0, 0, 0, 0, 0, 0, 0, 0, 0, 0, 0, 0, 0, 0, 0, 0, 0, 0, 0, 0, 0, 0, 0, 0, 0, 0,
     0, 0, 0, 0, 0, 0, 0, 24]"
  by (simp add: sha256_pad_def Let_def replicate_numeral_unfold)

lemma sha256_abc_words:
  "be_words
     [97, 98, 99, 128, 0, 0, 0, 0, 0, 0, 0, 0, 0, 0, 0, 0, 0, 0, 0, 0, 0, 0, 0, 0, 0, 0, 0,
     0, 0, 0, 0, 0, 0, 0, 0, 0, 0, 0, 0, 0, 0, 0, 0, 0, 0, 0, 0, 0, 0, 0, 0, 0, 0, 0, 0, 0,
     0, 0, 0, 0, 0, 0, 0, 24] =
     [1633837952, 0, 0, 0, 0, 0, 0, 0, 0, 0, 0, 0, 0, 0, 0, 24]"
  by simp

lemma sha256_abc_schedule:
  "schedule 48
     [24, 0, 0, 0, 0, 0, 0, 0, 0, 0, 0, 0, 0, 0, 0, 1633837952] =
     [313650667, 4004225740, 1720397816, 2755645205, 2025622859, 2682456414, 3957764664,
     4015503821, 2987358873, 344409900, 3256115900, 2226839261, 2845390439, 3118885940,
     3430291419, 4215179723, 106709978, 2049510749, 2215296807, 206005234, 657669027,
     1042573945, 4037431130, 2672279444, 610538786, 2483675966, 1924104970, 176896406,
     4043988066, 2952069057, 996719219, 2482346367, 3552024379, 1881225380, 3968280267,
     2636160359, 845560923, 3854317833, 3073800610, 3357629466, 3806512014, 316456923,
     25426944, 1050508152, 1610613702, 2108187653, 983040, 1633837952, 24, 0, 0, 0, 0, 0,
     0, 0, 0, 0, 0, 0, 0, 0, 0, 1633837952]"
  by (simp add: schedule_numeral small_sigma0_def small_sigma1_def rotr_def)

lemma sha256_abc_pairs:
  "zip sha256_K (rev (schedule 48 (rev
     [1633837952, 0, 0, 0, 0, 0, 0, 0, 0, 0, 0, 0, 0, 0, 0, 24]))) =
     [(1116352408, 1633837952), (1899447441, 0), (3049323471, 0), (3921009573, 0)] @
     [(961987163, 0), (1508970993, 0), (2453635748, 0), (2870763221, 0)] @
     [(3624381080, 0), (310598401, 0), (607225278, 0), (1426881987, 0)] @
     [(1925078388, 0), (2162078206, 0), (2614888103, 0), (3248222580, 24)] @
     [(3835390401, 1633837952), (4022224774, 983040), (264347078, 2108187653),
     (604807628, 1610613702)] @
     [(770255983, 1050508152), (1249150122, 25426944), (1555081692, 316456923),
     (1996064986, 3806512014)] @
     [(2554220882, 3357629466), (2821834349, 3073800610), (2952996808, 3854317833),
     (3210313671, 845560923)] @
     [(3336571891, 2636160359), (3584528711, 3968280267), (113926993, 1881225380),
     (338241895, 3552024379)] @
     [(666307205, 2482346367), (773529912, 996719219), (1294757372, 2952069057),
     (1396182291, 4043988066)] @
     [(1695183700, 176896406), (1986661051, 1924104970), (2177026350, 2483675966),
     (2456956037, 610538786)] @
     [(2730485921, 2672279444), (2820302411, 4037431130), (3259730800, 1042573945),
     (3345764771, 657669027)] @
     [(3516065817, 206005234), (3600352804, 2215296807), (4094571909, 2049510749),
     (275423344, 106709978)] @
     [(430227734, 4215179723), (506948616, 3430291419), (659060556, 3118885940),
     (883997877, 2845390439)] @
     [(958139571, 2226839261), (1322822218, 3256115900), (1537002063, 344409900),
     (1747873779, 2987358873)] @
     [(1955562222, 4015503821), (2024104815, 3957764664), (2227730452, 2682456414),
     (2361852424, 2025622859)] @
     [(2428436474, 2755645205), (2756734187, 1720397816), (3204031479, 4004225740),
     (3329325298, 313650667)]"
  by (simp add: sha256_abc_schedule sha256_K_def)

lemma sha256_abc_rounds_0:
  "fold sha_round [(1116352408, 1633837952), (1899447441, 0), (3049323471, 0), (3921009573, 0)]
     (1779033703, 3144134277, 1013904242, 2773480762, 1359893119, 2600822924, 528734635,
     1541459225) =
     (3578852966, 3368241063, 1516951981, 1567288269, 618661968, 4180228587, 2026797449,
     4197074466)"
  by (simp add: sha_round_def Let_def big_sigma0_def big_sigma1_def rotr_def)

lemma sha256_abc_rounds_1:
  "fold sha_round [(961987163, 0), (1508970993, 0), (2453635748, 0), (2870763221, 0)]
     (3578852966, 3368241063, 1516951981, 1567288269, 618661968, 4180228587, 2026797449,
     4197074466) =
     (2241887071, 3842179968, 725748213, 71342698, 207977081, 2603066369, 1900175533,
     1135452741)"
  by (simp add: sha_round_def Let_def big_sigma0_def big_sigma1_def rotr_def)

lemma sha256_abc_rounds_2:
  "fold sha_round [(3624381080, 0), (310598401, 0), (607225278, 0), (1426881987, 0)]
     (2241887071, 3842179968, 725748213, 71342698, 207977081, 2603066369, 1900175533,
     1135452741) =
     (4146054569, 1201185780, 2357671019, 2382687417, 2171590377, 1131095016, 482944406,
     852110732)"
  by (simp add: sha_round_def Let_def big_sigma0_def big_sigma1_def rotr_def)

lemma sha256_abc_rounds_3:
  "fold sha_round [(1925078388, 0), (2162078206, 0), (2614888103, 0), (3248222580, 24)]
     (4146054569, 1201185780, 2357671019, 2382687417, 2171590377, 1131095016, 482944406,
     852110732) =
     (2969183118, 3227803614, 3643992854, 2274437520, 123276749, 194179596, 1952073950,
     509051416)"
  by (simp add: sha_round_def Let_def big_sigma0_def big_sigma1_def rotr_def)

lemma sha256_abc_rounds_4:
  "fold sha_round [(3835390401, 1633837952), (4022224774, 983040), (264347078, 2108187653),
     (604807628, 1610613702)]
     (2969183118, 3227803614, 3643992854, 2274437520, 123276749, 194179596, 1952073950,
     509051416) =
     (3790736435, 4269243327, 3271285201, 567974555, 2959311225, 3431569761, 2221859924,
     2150900380)"
  by (simp add: sha_round_def Let_def big_sigma0_def big_sigma1_def rotr_def)

lemma sha256_abc_rounds_5:
  "fold sha_round [(770255983, 1050508152), (1249150122, 25426944), (1555081692, 316456923),
     (1996064986, 3806512014)]
     (3790736435, 4269243327, 3271285201, 567974555, 2959311225, 3431569761, 2221859924,
     2150900380) =
     (3319086477, 2812502591, 3261099373, 2647034723, 2856829767, 1240797514, 3777329520,
     2329577776)"
  by (simp add: sha_round_def Let_def big_sigma0_def big_sigma1_def rotr_def)

lemma sha256_abc_rounds_6:
  "fold sha_round [(2554220882, 3357629466), (2821834349, 3073800610), (2952996808, 3854317833),
     (3210313671, 845560923)]
     (3319086477, 2812502591, 3261099373, 2647034723, 2856829767, 1240797514, 3777329520,
     2329577776) =
     (2010346792, 3056518332, 3454534525, 472655928, 3992961016, 3343672598, 339230094,
     673443729)"
  by (simp add: sha_round_def Let_def big_sigma0_def big_sigma1_def rotr_def)

lemma sha256_abc_rounds_7:
  "fold sha_round [(3336571891, 2636160359), (3584528711, 3968280267), (113926993, 1881225380),
     (338241895, 3552024379)]
     (2010346792, 3056518332, 3454534525, 472655928, 3992961016, 3343672598, 339230094,
     673443729) =
     (1941126133, 3935906338, 2684750640, 909411017, 3126399250, 17410874, 2917635127,
     1628611511)"
  by (simp add: sha_round_def Let_def big_sigma0_def big_sigma1_def rotr_def)

lemma sha256_abc_rounds_8:
  "fold sha_round [(666307205, 2482346367), (773529912, 996719219), (1294757372, 2952069057),
     (1396182291, 4043988066)]
     (1941126133, 3935906338, 2684750640, 909411017, 3126399250, 17410874, 2917635127,
     1628611511) =
     (1705037796, 2846323596, 4267724277, 2564891911, 4105175766, 140458035, 1495571923,
     2631529974)"
  by (simp add: sha_round_def Let_def big_sigma0_def big_sigma1_def rotr_def)

lemma sha256_abc_rounds_9:
  "fold sha_round [(1695183700, 176896406), (1986661051, 1924104970), (2177026350, 2483675966),
     (2456956037, 610538786)]
     (1705037796, 2846323596, 4267724277, 2564891911, 4105175766, 140458035, 1495571923,
     2631529974) =
     (2045405306, 1841658506, 887035396, 1101421745, 519815328, 4034403272, 2768741693,
     124953195)"
  by (simp add: sha_round_def Let_def big_sigma0_def big_sigma1_def rotr_def)

lemma sha256_abc_rounds_10:
  "fold sha_round [(2730485921, 2672279444), (2820302411, 4037431130), (3259730800, 1042573945),
     (3345764771, 657669027)]
     (2045405306, 1841658506, 887035396, 1101421745, 519815328, 4034403272, 2768741693,
     124953195) =
     (2638983059, 397020670, 3745932591, 3597076326, 4255271982, 3737995029, 2206934801,
     641019235)"
  by (simp add: sha_round_def Let_def big_sigma0_def big_sigma1_def rotr_def)

lemma sha256_abc_rounds_11:
  "fold sha_round [(3516065817, 206005234), (3600352804, 2215296807), (4094571909, 2049510749),
     (275423344, 106709978)]
     (2638983059, 397020670, 3745932591, 3597076326, 4255271982, 3737995029, 2206934801,
     641019235) =
     (1098003085, 2706117808, 1923828625, 643991573, 4274981830, 3581645993, 3077922209,
     2819559920)"
  by (simp add: sha_round_def Let_def big_sigma0_def big_sigma1_def rotr_def)

lemma sha256_abc_rounds_12:
  "fold sha_round [(430227734, 4215179723), (506948616, 3430291419), (659060556, 3118885940),
     (883997877, 2845390439)]
     (1098003085, 2706117808, 1923828625, 643991573, 4274981830, 3581645993, 3077922209,
     2819559920) =
     (2288941602, 2047150241, 4045142696, 91585771, 1227037726, 1391578359, 1851537676,
     3178315832)"
  by (simp add: sha_round_def Let_def big_sigma0_def big_sigma1_def rotr_def)

lemma sha256_abc_rounds_13:
  "fold sha_round [(958139571, 2226839261), (1322822218, 3256115900), (1537002063, 344409900),
     (1747873779, 2987358873)]
     (2288941602, 2047150241, 4045142696, 91585771, 1227037726, 1391578359, 1851537676,
     3178315832) =
     (952932627, 1053056219, 4117770203, 270520975, 1422599787, 3842906959, 2672265155,
     1386118400)"
  by (simp add: sha_round_def Let_def big_sigma0_def big_sigma1_def rotr_def)

lemma sha256_abc_rounds_14:
  "fold sha_round [(1955562222, 4015503821), (2024104815, 3957764664), (2227730452, 2682456414),
     (2361852424, 2025622859)]
     (952932627, 1053056219, 4117770203, 270520975, 1422599787, 3842906959, 2672265155,
     1386118400) =
     (3064893439, 4290184306, 3227702383, 4241590395, 2988158269, 1837350854, 2118385806,
     2606665836)"
  by (simp add: sha_round_def Let_def big_sigma0_def big_sigma1_def rotr_def)

lemma sha256_abc_rounds_15:
  "fold sha_round [(2428436474, 2755645205), (2756734187, 1720397816), (3204031479, 4004225740),
     (3329325298, 313650667)]
     (3064893439, 4290184306, 3227702383, 4241590395, 2988158269, 1837350854, 2118385806,
     2606665836) =
     (1349398616, 3550093669, 80891244, 3093179625, 1593118500, 4212265488, 2492278198,
     2518632596)"
  by (simp add: sha_round_def Let_def big_sigma0_def big_sigma1_def rotr_def)

lemma sha256_abc_compress:
  "compress sha256_H0
     [1633837952, 0, 0, 0, 0, 0, 0, 0, 0, 0, 0, 0, 0, 0, 0, 24] =
     [3128432319, 2399260650, 1094795486, 1571693091, 2953011619, 2518121116, 3021012833,
     4060091821]"
  unfolding compress_def sha256_abc_pairs sha256_H0_state fold_append o_apply
    sha256_abc_rounds_0 sha256_abc_rounds_1 sha256_abc_rounds_2 sha256_abc_rounds_3 sha256_abc_rounds_4 sha256_abc_rounds_5 sha256_abc_rounds_6 sha256_abc_rounds_7 sha256_abc_rounds_8 sha256_abc_rounds_9 sha256_abc_rounds_10 sha256_abc_rounds_11 sha256_abc_rounds_12 sha256_abc_rounds_13 sha256_abc_rounds_14 sha256_abc_rounds_15
  by (simp add: sha256_H0_def)

lemma sha256_abc_blocks:
  "blocks sha256_H0
     [1633837952, 0, 0, 0, 0, 0, 0, 0, 0, 0, 0, 0, 0, 0, 0, 24] =
     [3128432319, 2399260650, 1094795486, 1571693091, 2953011619, 2518121116, 3021012833,
     4060091821]"
  by (subst blocks.simps, simp add: sha256_abc_compress, subst blocks.simps, simp)

lemma sha256_abc_digest:
  "sha256_hex ''abc'' =
     ''ba7816bf8f01cfea414140de5dae2223b00361a396177a9cb410ff61f20015ad''"
  by (simp add: sha256_hex_def sha256_abc_pad sha256_abc_words sha256_abc_blocks hex_word_def
      hex_digit_def)

text \<open>The digests of the two strings hashed in the examples.\<close>

lemma sha256_proto_example_pad:
  "sha256_pad
     [109, 49, 99, 104, 97, 116, 97, 108, 105, 99, 101, 104, 105, 48, 46, 48, 49, 48] =
     [109, 49, 99, 104, 97, 116, 97, 108, 105, 99, 101, 104, 105, 48, 46, 48, 49, 48, 128,
     0, 0, 0, 0, 0, 0, 0, 0, 0, 0, 0, 0, 0, 0, 0, 0, 0, 0, 0, 0, 0, 0, 0, 0, 0, 0, 0, 0, 0,
     0, 0, 0, 0, 0, 0, 0, 0, 0, 0, 0, 0, 0, 0, 0, 144]"
  by (simp add: sha256_pad_def Let_def replicate_numeral_unfold)

lemma sha256_proto_example_words:
  "be_words
     [109, 49, 99, 104, 97, 116, 97, 108, 105, 99, 101, 104, 105, 48, 46, 48, 49, 48, 128,
     0, 0, 0, 0, 0, 0, 0, 0, 0, 0, 0, 0, 0, 0, 0, 0, 0, 0, 0, 0, 0, 0, 0, 0, 0, 0, 0, 0, 0,
     0, 0, 0, 0, 0, 0, 0, 0, 0, 0, 0, 0, 0, 0, 0, 144] =
     [1831953256, 1635017068, 1768121704, 1764765232, 825262080, 0, 0, 0, 0, 0, 0, 0, 0, 0,
     0, 144]"
  by simp

lemma sha256_proto_example_schedule:
  "schedule 48
     [144, 0, 0, 0, 0, 0, 0, 0, 0, 0, 0, 825262080, 1764765232, 1768121704, 1635017068,
     1831953256] =
     [77522391, 1779606107, 4163919962, 694146173, 3384632962, 3140585612, 979522051,
     2974041443, 3033780849, 2655759409, 2917750972, 1198232283, 2133588326, 27147394,
     1609056778, 1967421733, 3174504167, 2266891709, 1337902078, 1080442638, 2209535288,
     3180621738, 1279603499, 2579994176, 1083262104, 3157813584, 4137665915, 91974888,
     164790821, 3734989570, 1948584279, 2222807772, 1789660702, 1007586305, 3161528825,
     3979239200, 1922817369, 773041808, 345793299, 2943800293, 932932425, 659941392,
     1251789056, 3031240084, 2054024879, 1004275503, 1718817195, 971563034, 144, 0, 0, 0,
     0, 0, 0, 0, 0, 0, 0, 825262080, 1764765232, 1768121704, 1635017068, 1831953256]"
  by (simp add: schedule_numeral small_sigma0_def small_sigma1_def rotr_def)

lemma sha256_proto_example_pairs:
  "zip sha256_K (rev (schedule 48 (rev
     [1831953256, 1635017068, 1768121704, 1764765232, 825262080, 0, 0, 0, 0, 0, 0, 0, 0, 0,
     0, 144]))) =
     [(1116352408, 1831953256), (1899447441, 1635017068), (3049323471, 1768121704),
     (3921009573, 1764765232)] @
     [(961987163, 825262080), (1508970993, 0), (2453635748, 0), (2870763221, 0)] @
     [(3624381080, 0), (310598401, 0), (607225278, 0), (1426881987, 0)] @
     [(1925078388, 0), (2162078206, 0), (2614888103, 0), (3248222580, 144)] @
     [(3835390401, 971563034), (4022224774, 1718817195), (264347078, 1004275503),
     (604807628, 2054024879)] @
     [(770255983, 3031240084), (1249150122, 1251789056), (1555081692, 659941392),
     (1996064986, 932932425)] @
     [(2554220882, 2943800293), (2821834349, 345793299), (2952996808, 773041808),
     (3210313671, 1922817369)] @
     [(3336571891, 3979239200), (3584528711, 3161528825), (113926993, 1007586305),
     (338241895, 1789660702)] @
     [(666307205, 2222807772), (773529912, 1948584279), (1294757372, 3734989570),
     (1396182291, 164790821)] @
     [(1695183700, 91974888), (1986661051, 4137665915), (2177026350, 3157813584),
     (2456956037, 1083262104)] @
     [(2730485921, 2579994176), (2820302411, 1279603499), (3259730800, 3180621738),
     (3345764771, 2209535288)] @
     [(3516065817, 1080442638), (3600352804, 1337902078), (4094571909, 2266891709),
     (275423344, 3174504167)] @
     [(430227734, 1967421733), (506948616, 1609056778), (659060556, 27147394),
     (883997877, 2133588326)] @
     [(958139571, 1198232283), (1322822218, 2917750972), (1537002063, 2655759409),
     (1747873779, 3033780849)] @
     [(1955562222, 2974041443), (2024104815, 979522051), (2227730452, 3140585612),
     (2361852424, 3384632962)] @
     [(2428436474, 694146173), (2756734187, 4163919962), (3204031479, 1779606107),
     (3329325298, 77522391)]"
  by (simp add: sha256_proto_example_schedule sha256_K_def)

lemma sha256_proto_example_rounds_0:
  "fold sha_round [(1116352408, 1831953256), (1899447441, 1635017068), (3049323471, 1768121704),
     (3921009573, 1764765232)]
     (1779033703, 3144134277, 1013904242, 2773480762, 1359893119, 2600822924, 528734635,
     1541459225) =
     (4178200838, 16096850, 4003864211, 1765403573, 1435134111, 3135676658, 3751754970,
     100222474)"
  by (simp add: sha_round_def Let_def big_sigma0_def big_sigma1_def rotr_def)

lemma sha256_proto_example_rounds_1:
  "fold sha_round [(961987163, 825262080), (1508970993, 0), (2453635748, 0), (2870763221, 0)]
     (4178200838, 16096850, 4003864211, 1765403573, 1435134111, 3135676658, 3751754970,
     100222474) =
     (3296516874, 1655119076, 995029479, 2123887749, 3741707168, 1851772620, 218175504,
     534413361)"
  by (simp add: sha_round_def Let_def big_sigma0_def big_sigma1_def rotr_def)

lemma sha256_proto_example_rounds_2:
  "fold sha_round [(3624381080, 0), (310598401, 0), (607225278, 0), (1426881987, 0)]
     (3296516874, 1655119076, 995029479, 2123887749, 3741707168, 1851772620, 218175504,
     534413361) =
     (2111836773, 3668275936, 3646290687, 3087942896, 905146246, 4004473173, 65076312,
     974266714)"
  by (simp add: sha_round_def Let_def big_sigma0_def big_sigma1_def rotr_def)

lemma sha256_proto_example_rounds_3:
  "fold sha_round [(1925078388, 0), (2162078206, 0), (2614888103, 0), (3248222580, 144)]
     (2111836773, 3668275936, 3646290687, 3087942896, 905146246, 4004473173, 65076312,
     974266714) =
     (3508713313, 3376396293, 995730953, 186325574, 4150615785, 1350861054, 2087651391,
     2636738019)"
  by (simp add: sha_round_def Let_def big_sigma0_def big_sigma1_def rotr_def)

lemma sha256_proto_example_rounds_4:
  "fold sha_round [(3835390401, 971563034), (4022224774, 1718817195), (264347078, 1004275503),
     (604807628, 2054024879)]
     (3508713313, 3376396293, 995730953, 186325574, 4150615785, 1350861054, 2087651391,
     2636738019) =
     (569603603, 2275326638, 3222974922, 4208926577, 570313034, 741094315, 686735779,
     3877822509)"
  by (simp add: sha_round_def Let_def big_sigma0_def big_sigma1_def rotr_def)

lemma sha256_proto_example_rounds_5:
  "fold sha_round [(770255983, 3031240084), (1249150122, 1251789056), (1555081692, 659941392),
     (1996064986, 932932425)]
     (569603603, 2275326638, 3222974922, 4208926577, 570313034, 741094315, 686735779,
     3877822509) =
     (723415595, 2478266757, 2206440200, 665145593, 1405301024, 15329610, 3229830285,
     3953925960)"
  by (simp add: sha_round_def Let_def big_sigma0_def big_sigma1_def rotr_def)

lemma sha256_proto_example_rounds_6:
  "fold sha_round [(2554220882, 2943800293), (2821834349, 345793299), (2952996808, 773041808),
     (3210313671, 1922817369)]
     (723415595, 2478266757, 2206440200, 665145593, 1405301024, 15329610, 3229830285,
     3953925960) =
     (1959637351, 1830403508, 130874434, 2666420853, 741642, 2700120942, 3792930193,
     547743632)"
  by (simp add: sha_round_def Let_def big_sigma0_def big_sigma1_def rotr_def)

lemma sha256_proto_example_rounds_7:
  "fold sha_round [(3336571891, 3979239200), (3584528711, 3161528825), (113926993, 1007586305),
     (338241895, 1789660702)]
     (1959637351, 1830403508, 130874434, 2666420853, 741642, 2700120942, 3792930193,
     547743632) =
     (2777220683, 932515334, 2331615673, 2320017081, 3851430146, 2414891129, 2964867716,
     1654385633)"
  by (simp add: sha_round_def Let_def big_sigma0_def big_sigma1_def rotr_def)

lemma sha256_proto_example_rounds_8:
  "fold sha_round [(666307205, 2222807772), (773529912, 1948584279), (1294757372, 3734989570),
     (1396182291, 164790821)]
     (2777220683, 932515334, 2331615673, 2320017081, 3851430146, 2414891129, 2964867716,
     1654385633) =
     (1113346358, 339293696, 4080591735, 791040240, 1591081208, 2678686397, 1101156668,
     313503314)"
  by (simp add: sha_round_def Let_def big_sigma0_def big_sigma1_def rotr_def)

lemma sha256_proto_example_rounds_9:
  "fold sha_round [(1695183700, 91974888), (1986661051, 4137665915), (2177026350, 3157813584),
     (2456956037, 1083262104)]
     (1113346358, 339293696, 4080591735, 791040240, 1591081208, 2678686397, 1101156668,
     313503314) =
     (732002283, 2200019505, 1460588350, 3959444633, 2939177819, 2051051534, 663899153,
     1619808941)"
  by (simp add: sha_round_def Let_def big_sigma0_def big_sigma1_def rotr_def)

lemma sha256_proto_example_rounds_10:
  "fold sha_round [(2730485921, 2579994176), (2820302411, 1279603499), (3259730800, 3180621738),
     (3345764771, 2209535288)]
     (732002283, 2200019505, 1460588350, 3959444633, 2939177819, 2051051534, 663899153,
     1619808941) =
     (2228498667, 2650631900, 61433430, 1494414373, 4070276183, 4256857558, 2463587961,
     1367520548)"
  by (simp add: sha_round_def Let_def big_sigma0_def big_sigma1_def rotr_def)

lemma sha256_proto_example_rounds_11:
  "fold sha_round [(3516065817, 1080442638), (3600352804, 1337902078), (4094571909, 2266891709),
     (275423344, 3174504167)]
     (2228498667, 2650631900, 61433430, 1494414373, 4070276183, 4256857558, 2463587961,
     1367520548) =
     (2199074877, 3547859701, 2876009296, 2844547990, 2568998692, 95812325, 3649132199,
     1173840981)"
  by (simp add: sha_round_def Let_def big_sigma0_def big_sigma1_def rotr_def)

lemma sha256_proto_example_rounds_12:
  "fold sha_round [(430227734, 1967421733), (506948616, 1609056778), (659060556, 27147394),
     (883997877, 2133588326)]
     (2199074877, 3547859701, 2876009296, 2844547990, 2568998692, 95812325, 3649132199,
     1173840981) =
     (364219453, 1242822333, 2593496972, 2160562895, 1702680021, 238347776, 1520964435,
     3105071958)"
  by (simp add: sha_round_def Let_def big_sigma0_def big_sigma1_def rotr_def)

lemma sha256_proto_example_rounds_13:
  "fold sha_round [(958139571, 1198232283), (1322822218, 2917750972), (1537002063, 2655759409),
     (1747873779, 3033780849)]
     (364219453, 1242822333, 2593496972, 2160562895, 1702680021, 238347776, 1520964435,
     3105071958) =
     (624246339, 3152795776, 3582390475, 3069090071, 1029621356, 123533259, 3120735280,
     711676468)"
  by (simp add: sha_round_def Let_def big_sigma0_def big_sigma1_def rotr_def)

lemma sha256_proto_example_rounds_14:
  "fold sha_round [(1955562222, 2974041443), (2024104815, 979522051), (2227730452, 3140585612),
     (2361852424, 3384632962)]
     (624246339, 3152795776, 3582390475, 3069090071, 1029621356, 123533259, 3120735280,
     711676468) =
     (4132629045, 642988499, 617008890, 1325615916, 2841259018, 3613148878, 2208057816,
     1620869331)"
  by (simp add: sha_round_def Let_def big_sigma0_def big_sigma1_def rotr_def)

lemma sha256_proto_example_rounds_15:
  "fold sha_round [(2428436474, 694146173), (2756734187, 4163919962), (3204031479, 1779606107),
     (3329325298, 77522391)]
     (4132629045, 642988499, 617008890, 1325615916, 2841259018, 3613148878, 2208057816,
     1620869331) =
     (1168278041, 4110538262, 1358460672, 862235771, 3219451869, 1526957688, 29048977,
     4102106353)"
  by (simp add: sha_round_def Let_def big_sigma0_def big_sigma1_def rotr_def)

lemma sha256_proto_example_compress:
  "compress sha256_H0
     [1831953256, 1635017068, 1768121704, 1764765232, 825262080, 0, 0, 0, 0, 0, 0, 0, 0, 0,
     0, 144] =
     [2947311744, 2959705243, 2372364914, 3635716533, 284377692, 4127780612, 557783612,
     1348598282]"
  unfolding compress_def sha256_proto_example_pairs sha256_H0_state fold_append o_apply
    sha256_proto_example_rounds_0 sha256_proto_example_rounds_1 sha256_proto_example_rounds_2 sha256_proto_example_rounds_3 sha256_proto_example_rounds_4 sha256_proto_example_rounds_5 sha256_proto_example_rounds_6 sha256_proto_example_rounds_7 sha256_proto_example_rounds_8 sha256_proto_example_rounds_9 sha256_proto_example_rounds_10 sha256_proto_example_rounds_11 sha256_proto_example_rounds_12 sha256_proto_example_rounds_13 sha256_proto_example_rounds_14 sha256_proto_example_rounds_15
  by (simp add: sha256_H0_def)

lemma sha256_proto_example_blocks:
  "blocks sha256_H0
     [1831953256, 1635017068, 1768121704, 1764765232, 825262080, 0, 0, 0, 0, 0, 0, 0, 0, 0,
     0, 144] =
     [2947311744, 2959705243, 2372364914, 3635716533, 284377692, 4127780612, 557783612,
     1348598282]"
  by (subst blocks.simps, simp add: sha256_proto_example_compress, subst blocks.simps, simp)

lemma sha256_proto_example_digest:
  "sha256_hex ''m1chatalicehi0.010'' =
     ''afac6880b069849b8d676a72d8b4a1b510f3425cf608ef04213f1a3c5061fa0a''"
  by (simp add: sha256_hex_def sha256_proto_example_pad sha256_proto_example_words sha256_proto_example_blocks hex_word_def
      hex_digit_def)

lemma sha256_server_example_pad:
  "sha256_pad
     [109, 49, 99, 104, 97, 116, 97, 108, 105, 99, 101, 104, 105, 48, 46, 48] =
     [109, 49, 99, 104, 97, 116, 97, 108, 105, 99, 101, 104, 105, 48, 46, 48, 128, 0, 0, 0,
     0, 0, 0, 0, 0, 0, 0, 0, 0, 0, 0, 0, 0, 0, 0, 0, 0, 0, 0, 0, 0, 0, 0, 0, 0, 0, 0, 0, 0,
     0, 0, 0, 0, 0, 0, 0, 0, 0, 0, 0, 0, 0, 0, 128]"
  by (simp add: sha256_pad_def Let_def replicate_numeral_unfold)

lemma sha256_server_example_words:
  "be_words
     [109, 49, 99, 104, 97, 116, 97, 108, 105, 99, 101, 104, 105, 48, 46, 48, 128, 0, 0, 0,
     0, 0, 0, 0, 0, 0, 0, 0, 0, 0, 0, 0, 0, 0, 0, 0, 0, 0, 0, 0, 0, 0, 0, 0, 0, 0, 0, 0, 0,
     0, 0, 0, 0, 0, 0, 0, 0, 0, 0, 0, 0, 0, 0, 128] =
     [1831953256, 1635017068, 1768121704, 1764765232, 2147483648, 0, 0, 0, 0, 0, 0, 0, 0, 0,
     0, 128]"
  by simp

lemma sha256_server_example_schedule:
  "schedule 48
     [128, 0, 0, 0, 0, 0, 0, 0, 0, 0, 0, 2147483648, 1764765232, 1768121704, 1635017068,
     1831953256] =
     [1590506312, 1389252068, 2614457946, 1369910584, 734809929, 1806214520, 2950810698,
     4186027072, 4164156472, 2886339615, 696494663, 2711280797, 1464299723, 4004376128,
     1209387597, 2324018207, 206058481, 4160565621, 2285307132, 3102737358, 537733611,
     2408561059, 2265473670, 1685457813, 682214022, 4024890342, 1849868249, 3182267541,
     3790528163, 1973104836, 1318522346, 2795387721, 1002552520, 3580165497, 2419521213,
     1247614694, 2764489075, 2775718700, 1831053442, 2328625391, 2877784648, 3614990194,
     4219632725, 58494356, 623481837, 1004275503, 1718161835, 971563034, 128, 0, 0, 0, 0,
     0, 0, 0, 0, 0, 0, 2147483648, 1764765232, 1768121704, 1635017068, 1831953256]"
  by (simp add: schedule_numeral small_sigma0_def small_sigma1_def rotr_def)

lemma sha256_server_example_pairs:
  "zip sha256_K (rev (schedule 48 (rev
     [1831953256, 1635017068, 1768121704, 1764765232, 2147483648, 0, 0, 0, 0, 0, 0, 0, 0, 0,
     0, 128]))) =
     [(1116352408, 1831953256), (1899447441, 1635017068), (3049323471, 1768121704),
     (3921009573, 1764765232)] @
     [(961987163, 2147483648), (1508970993, 0), (2453635748, 0), (2870763221, 0)] @
     [(3624381080, 0), (310598401, 0), (607225278, 0), (1426881987, 0)] @
     [(1925078388, 0), (2162078206, 0), (2614888103, 0), (3248222580, 128)] @
     [(3835390401, 971563034), (4022224774, 1718161835), (264347078, 1004275503),
     (604807628, 623481837)] @
     [(770255983, 58494356), (1249150122, 4219632725), (1555081692, 3614990194),
     (1996064986, 2877784648)] @
     [(2554220882, 2328625391), (2821834349, 1831053442), (2952996808, 2775718700),
     (3210313671, 2764489075)] @
     [(3336571891, 1247614694), (3584528711, 2419521213), (113926993, 3580165497),
     (338241895, 1002552520)] @
     [(666307205, 2795387721), (773529912, 1318522346), (1294757372, 1973104836),
     (1396182291, 3790528163)] @
     [(1695183700, 3182267541), (1986661051, 1849868249), (2177026350, 4024890342),
     (2456956037, 682214022)] @
     [(2730485921, 1685457813), (2820302411, 2265473670), (3259730800, 2408561059),
     (3345764771, 537733611)] @
     [(3516065817, 3102737358), (3600352804, 2285307132), (4094571909, 4160565621),
     (275423344, 206058481)] @
     [(430227734, 2324018207), (506948616, 1209387597), (659060556, 4004376128),
     (883997877, 1464299723)] @
     [(958139571, 2711280797), (1322822218, 696494663), (1537002063, 2886339615),
     (1747873779, 4164156472)] @
     [(1955562222, 4186027072), (2024104815, 2950810698), (2227730452, 1806214520),
     (2361852424, 734809929)] @
     [(2428436474, 1369910584), (2756734187, 2614457946), (3204031479, 1389252068),
     (3329325298, 1590506312)]"
  by (simp add: sha256_server_example_schedule sha256_K_def)

lemma sha256_server_example_rounds_0:
  "fold sha_round [(1116352408, 1831953256), (1899447441, 1635017068), (3049323471, 1768121704),
     (3921009573, 1764765232)]
     (1779033703, 3144134277, 1013904242, 2773480762, 1359893119, 2600822924, 528734635,
     1541459225) =
     (4178200838, 16096850, 4003864211, 1765403573, 1435134111, 3135676658, 3751754970,
     100222474)"
  by (simp add: sha_round_def Let_def big_sigma0_def big_sigma1_def rotr_def)

lemma sha256_server_example_rounds_1:
  "fold sha_round [(961987163, 2147483648), (1508970993, 0), (2453635748, 0), (2870763221, 0)]
     (4178200838, 16096850, 4003864211, 1765403573, 1435134111, 3135676658, 3751754970,
     100222474) =
     (3284836666, 2876754230, 3104002762, 3446109317, 3609273948, 2114707638, 2476504104,
     1856634929)"
  by (simp add: sha_round_def Let_def big_sigma0_def big_sigma1_def rotr_def)

lemma sha256_server_example_rounds_2:
  "fold sha_round [(3624381080, 0), (310598401, 0), (607225278, 0), (1426881987, 0)]
     (3284836666, 2876754230, 3104002762, 3446109317, 3609273948, 2114707638, 2476504104,
     1856634929) =
     (3549942219, 3770914095, 2007458818, 76056609, 3552809486, 608587870, 2329258812,
     2467028568)"
  by (simp add: sha_round_def Let_def big_sigma0_def big_sigma1_def rotr_def)

lemma sha256_server_example_rounds_3:
  "fold sha_round [(1925078388, 0), (2162078206, 0), (2614888103, 0), (3248222580, 128)]
     (3549942219, 3770914095, 2007458818, 76056609, 3552809486, 608587870, 2329258812,
     2467028568) =
     (1718422756, 3920046396, 754179892, 3271623402, 1631018659, 3371542945, 1031388557,
     2919591550)"
  by (simp add: sha_round_def Let_def big_sigma0_def big_sigma1_def rotr_def)

lemma sha256_server_example_rounds_4:
  "fold sha_round [(3835390401, 971563034), (4022224774, 1718161835), (264347078, 1004275503),
     (604807628, 623481837)]
     (1718422756, 3920046396, 754179892, 3271623402, 1631018659, 3371542945, 1031388557,
     2919591550) =
     (616978366, 926867881, 4195145145, 583138083, 2653277624, 3732810340, 2916460413,
     2924482321)"
  by (simp add: sha_round_def Let_def big_sigma0_def big_sigma1_def rotr_def)

lemma sha256_server_example_rounds_5:
  "fold sha_round [(770255983, 58494356), (1249150122, 4219632725), (1555081692, 3614990194),
     (1996064986, 2877784648)]
     (616978366, 926867881, 4195145145, 583138083, 2653277624, 3732810340, 2916460413,
     2924482321) =
     (73646926, 3514204061, 3793702476, 1256498240, 359025071, 1846880793, 320519999,
     167345756)"
  by (simp add: sha_round_def Let_def big_sigma0_def big_sigma1_def rotr_def)

lemma sha256_server_example_rounds_6:
  "fold sha_round [(2554220882, 2328625391), (2821834349, 1831053442), (2952996808, 2775718700),
     (3210313671, 2764489075)]
     (73646926, 3514204061, 3793702476, 1256498240, 359025071, 1846880793, 320519999,
     167345756) =
     (3725880470, 1609648448, 1008178634, 1116843075, 3943364093, 2924549717, 3920855600,
     3097040219)"
  by (simp add: sha_round_def Let_def big_sigma0_def big_sigma1_def rotr_def)

lemma sha256_server_example_rounds_7:
  "fold sha_round [(3336571891, 1247614694), (3584528711, 2419521213), (113926993, 3580165497),
     (338241895, 1002552520)]
     (3725880470, 1609648448, 1008178634, 1116843075, 3943364093, 2924549717, 3920855600,
     3097040219) =
     (813219907, 2828851346, 1347793002, 579469765, 3491783607, 1962129686, 3209722821,
     2223288136)"
  by (simp add: sha_round_def Let_def big_sigma0_def big_sigma1_def rotr_def)

lemma sha256_server_example_rounds_8:
  "fold sha_round [(666307205, 2795387721), (773529912, 1318522346), (1294757372, 1973104836),
     (1396182291, 3790528163)]
     (813219907, 2828851346, 1347793002, 579469765, 3491783607, 1962129686, 3209722821,
     2223288136) =
     (3326966295, 2074372061, 1177116676, 3912834095, 2583635219, 266307606, 4010051332,
     2925498011)"
  by (simp add: sha_round_def Let_def big_sigma0_def big_sigma1_def rotr_def)

lemma sha256_server_example_rounds_9:
  "fold sha_round [(1695183700, 3182267541), (1986661051, 1849868249), (2177026350, 4024890342),
     (2456956037, 682214022)]
     (3326966295, 2074372061, 1177116676, 3912834095, 2583635219, 266307606, 4010051332,
     2925498011) =
     (4181932680, 1444336283, 3180604714, 2943349090, 3865336365, 2347332665, 1967459389,
     1035368325)"
  by (simp add: sha_round_def Let_def big_sigma0_def big_sigma1_def rotr_def)

lemma sha256_server_example_rounds_10:
  "fold sha_round [(2730485921, 1685457813), (2820302411, 2265473670), (3259730800, 2408561059),
     (3345764771, 537733611)]
     (4181932680, 1444336283, 3180604714, 2943349090, 3865336365, 2347332665, 1967459389,
     1035368325) =
     (3251082626, 1894904397, 3289091521, 2087283948, 1023546462, 2575422436, 663893730,
     1204157542)"
  by (simp add: sha_round_def Let_def big_sigma0_def big_sigma1_def rotr_def)

lemma sha256_server_example_rounds_11:
  "fold sha_round [(3516065817, 3102737358), (3600352804, 2285307132), (4094571909, 4160565621),
     (275423344, 206058481)]
     (3251082626, 1894904397, 3289091521, 2087283948, 1023546462, 2575422436, 663893730,
     1204157542) =
     (631679204, 2067520058, 3762686151, 587733082, 3824050000, 1692013637, 3625815908,
     3699117866)"
  by (simp add: sha_round_def Let_def big_sigma0_def big_sigma1_def rotr_def)

lemma sha256_server_example_rounds_12:
  "fold sha_round [(430227734, 2324018207), (506948616, 1209387597), (659060556, 4004376128),
     (883997877, 1464299723)]
     (631679204, 2067520058, 3762686151, 587733082, 3824050000, 1692013637, 3625815908,
     3699117866) =
     (3186286518, 2394919728, 922771191, 2387617290, 286924638, 2818100001, 347827290,
     2068225508)"
  by (simp add: sha_round_def Let_def big_sigma0_def big_sigma1_def rotr_def)

lemma sha256_server_example_rounds_13:
  "fold sha_round [(958139571, 2711280797), (1322822218, 696494663), (1537002063, 2886339615),
     (1747873779, 4164156472)]
     (3186286518, 2394919728, 922771191, 2387617290, 286924638, 2818100001, 347827290,
     2068225508) =
     (4205247908, 4186993025, 3331606938, 865941612, 290426061, 610163989, 2188225313,
     143719540)"
  by (simp add: sha_round_def Let_def big_sigma0_def big_sigma1_def rotr_def)

lemma sha256_server_example_rounds_14:
  "fold sha_round [(1955562222, 4186027072), (2024104815, 2950810698), (2227730452, 1806214520),
     (2361852424, 734809929)]
     (4205247908, 4186993025, 3331606938, 865941612, 290426061, 610163989, 2188225313,
     143719540) =
     (4202125793, 266964505, 1774157354, 1178552133, 273977479, 133579935, 2665766156,
     919538813)"
  by (simp add: sha_round_def Let_def big_sigma0_def big_sigma1_def rotr_def)

lemma sha256_server_example_rounds_15:
  "fold sha_round [(2428436474, 1369910584), (2756734187, 2614457946), (3204031479, 1389252068),
     (3329325298, 1590506312)]
     (4202125793, 266964505, 1774157354, 1178552133, 273977479, 133579935, 2665766156,
     919538813) =
     (3402409277, 145924057, 914874983, 2819195626, 639956467, 2642582163, 1518422866,
     357820891)"
  by (simp add: sha_round_def Let_def big_sigma0_def big_sigma1_def rotr_def)

lemma sha256_server_example_compress:
  "compress sha256_H0
     [1831953256, 1635017068, 1768121704, 1764765232, 2147483648, 0, 0, 0, 0, 0, 0, 0, 0, 0,
     0, 128] =
     [886475684, 3290058334, 1928779225, 1297709092, 1999849586, 948437791, 2047157501,
     1899280116]"
  unfolding compress_def sha256_server_example_pairs sha256_H0_state fold_append o_apply
    sha256_server_example_rounds_0 sha256_server_example_rounds_1 sha256_server_example_rounds_2 sha256_server_example_rounds_3 sha256_server_example_rounds_4 sha256_server_example_rounds_5 sha256_server_example_rounds_6 sha256_server_example_rounds_7 sha256_server_example_rounds_8 sha256_server_example_rounds_9 sha256_server_example_rounds_10 sha256_server_example_rounds_11 sha256_server_example_rounds_12 sha256_server_example_rounds_13 sha256_server_example_rounds_14 sha256_server_example_rounds_15
  by (simp add: sha256_H0_def)

lemma sha256_server_example_blocks:
  "blocks sha256_H0
     [1831953256, 1635017068, 1768121704, 1764765232, 2147483648, 0, 0, 0, 0, 0, 0, 0, 0, 0,
     0, 128] =
     [886475684, 3290058334, 1928779225, 1297709092, 1999849586, 948437791, 2047157501,
     1899280116]"
  by (subst blocks.simps, simp add: sha256_server_example_compress, subst blocks.simps, simp)

lemma sha256_server_example_digest:
  "sha256_hex ''m1chatalicehi0.0'' =
     ''34d68ba4c41a4e5e72f6d5d94d597824773348723888031f7a0524fd7134b6f4''"
  by (simp add: sha256_hex_def sha256_server_example_pad sha256_server_example_words sha256_server_example_blocks hex_word_def
      hex_digit_def)


lemma Message_init_fields [simp]:
  "msg_id (Message_init L i t s c ts cs) = i"
  "msg_type (Message_init L i t s c ts cs) = t"
  "sender (Message_init L i t s c ts cs) = s"
  "content (Message_init L i t s c ts cs) = c"
  "timestamp (Message_init L i t s c ts cs) = ts"
  by (simp_all add: Message_init_def Let_def)

section \<open>Properties of a server connection\<close>

lemma example_chat_fields:
  "msg_id example_chat = ''m1''" "msg_type example_chat = CHAT"
  by (simp_all add: example_chat_def)

lemma example_ack_for: "ack_for_of python_library (content example_ack) = Some ''m1''"
  by (simp add: example_ack_def ack_for_of_def python_library_def json_quote_def
      json_parse_flat_def skip_ws_def parse_scalar_def)

lemma send_raw_keeps [simp]:
  "congestion_control (send_raw conn m) = congestion_control conn"
  "expected_ack (send_raw conn m) = expected_ack conn"
  "pending_messages (send_raw conn m) = pending_messages conn"
  "send_queue (send_raw conn m) = send_queue conn"
  "socket_open (send_raw conn m) = socket_open conn"
  by (simp_all add: send_raw_def)

lemma ack_inv_cong:
  "congestion_control c' = congestion_control c \<Longrightarrow> expected_ack c' = expected_ack c \<Longrightarrow>
   ack_inv c \<Longrightarrow> ack_inv c'"
  by (simp add: ack_inv_def)

lemma on_timeout_fields [simp]:
  "state (on_timeout c) = SLOW_START"
  "duplicate_acks (on_timeout c) = 0"
  "last_ack (on_timeout c) = last_ack c"
  by (simp_all add: on_timeout_def Let_def)

lemma ack_inv_retransmit: "ack_inv conn \<Longrightarrow> ack_inv (retransmit t ids conn)"
proof (induction ids arbitrary: conn)
  case Nil
  then show ?case by simp
next
  case (Cons i ids)
  show ?case
  proof (cases "map_of (pending_messages conn) i")
    case None
    with Cons show ?thesis by simp
  next
    case (Some p)
    obtain m s where p: "p = (m, s)" by (cases p)
    have "ack_inv ((send_raw conn m)\<lparr>pending_messages :=
             AList.update i (m, t) (pending_messages (send_raw conn m)),
             congestion_control := on_timeout (congestion_control conn)\<rparr>)"
      using Cons.prems by (simp add: ack_inv_def)
    from Cons.IH [OF this] Some p show ?thesis by (simp add: Let_def)
  qed
qed

lemma send_new_keeps [simp]:
  "congestion_control (send_new n t conn) = congestion_control conn"
  "expected_ack (send_new n t conn) = expected_ack conn"
  by (induction n t conn rule: send_new.induct; simp add: Let_def split: list.splits)+

lemma ack_inv_sender_worker_pass: "ack_inv conn \<Longrightarrow> ack_inv (sender_worker_pass conn t)"
  unfolding sender_worker_pass_def Let_def
  by (rule ack_inv_cong [OF _ _ ack_inv_retransmit]) simp_all

lemma ack_inv_on_ack:
  assumes "ack_inv conn"
  shows "ack_inv (conn\<lparr>congestion_control :=
            on_ack_received (congestion_control conn) (expected_ack conn) rtt,
          expected_ack := expected_ack conn + 1\<rparr>)"
proof -
  let ?cc = "congestion_control conn" and ?e = "expected_ack conn"
  from assms have e: "?e = 0 \<or> ?e = 1 \<or> 2 \<le> ?e" by (auto simp: ack_inv_def)
  then show ?thesis
  proof (elim disjE)
    assume "?e = 0"
    with assms show ?thesis by (auto simp: ack_inv_def on_ack_received_def Let_def)
  next
    assume "?e = 1"
    with assms show ?thesis by (auto simp: ack_inv_def on_ack_received_def Let_def)
  next
    assume "2 \<le> ?e"
    with assms show ?thesis by (auto simp: ack_inv_def on_ack_received_def Let_def)
  qed
qed

lemma ack_inv_handle_ack: "ack_inv conn \<Longrightarrow> ack_inv (handle_ack ack_for conn m now)"
  using ack_inv_on_ack [of conn]
  by (auto simp: handle_ack_def Let_def ack_inv_def split: option.splits)

lemma ack_inv_conn_step: "ack_inv conn \<Longrightarrow> ack_inv (conn_step ack_for conn ev)"
  by (cases ev)
    (simp_all add: ack_inv_sender_worker_pass ack_inv_handle_ack,
     simp_all add: ack_inv_def send_message_def close_def)

lemma ack_inv_init: "ack_inv (ClientConnection_init cid now)"
  by (simp add: ack_inv_def ClientConnection_init_def CongestionControl_init_def)

lemma ack_inv_conn_run: "ack_inv conn \<Longrightarrow> ack_inv (conn_run ack_for conn evs)"
  unfolding conn_run_def by (induction evs arbitrary: conn) (simp_all add: ack_inv_conn_step)

text \<open>
  Claim C10. \<^verbatim>\<open>handle_ack\<close> hands the controller the connection's own counter
  \<^verbatim>\<open>expected_ack\<close> and increments it after every matched acknowledgement, so the first
  matched acknowledgement (number 0 against \<^verbatim>\<open>last_ack = 0\<close>) is the only one the
  controller can take for a duplicate. Whatever is queued, sent, retransmitted,
  acknowledged, dropped or closed on a fresh connection, and whatever the
  acknowledgements contain, \<^verbatim>\<open>duplicate_acks\<close> never exceeds 1 and the controller is
  never in \<^verbatim>\<open>FAST_RECOVERY\<close>.
\<close>

theorem server_never_fast_recovers:
  "duplicate_acks (congestion_control (conn_run ack_for (ClientConnection_init cid now) evs)) \<le> 1 \<and>
   state (congestion_control (conn_run ack_for (ClientConnection_init cid now) evs)) \<noteq> FAST_RECOVERY"
  using ack_inv_conn_run [OF ack_inv_init, of ack_for cid now evs] by (simp add: ack_inv_def)

lemma conn_run_snoc: "conn_run ack_for conn (evs @ [e]) = conn_step ack_for (conn_run ack_for conn evs) e"
  by (simp add: conn_run_def)


lemma py_int_1 [simp]: "py_int 1 = 1"
  by (simp add: py_int_def)


text \<open>
  What one pass of the sender loop does to the pending entries and to the socket, for
  every connection state. A retransmission rewrites the send time of an entry and
  nothing else of it.
\<close>

lemma retransmit_keeps [simp]:
  "socket_open (retransmit now ids conn) = socket_open conn"
  "send_queue (retransmit now ids conn) = send_queue conn"
  by (induction ids arbitrary: conn; simp add: Let_def split: option.splits)+
















text \<open>A socket that has failed: nothing is written, and the first write stops the loop.\<close>

lemma send_new_socket_open [simp]:
  "socket_open (send_new n now conn) = socket_open conn"
  by (induction n now conn rule: send_new.induct) (simp_all add: Let_def split: list.splits)


















lemma update_rtt_estimator:
  "srtt (update_rtt c rtt) = (if rtt_samples c = [] then rtt else 0.875 * srtt c + 0.125 * rtt)"
  "rttvar (update_rtt c rtt) =
     (if rtt_samples c = [] then rtt / 2 else 0.75 * rttvar c + 0.25 * \<bar>srtt c - rtt\<bar>)"
  by (simp_all add: update_rtt_def Let_def)

lemma on_ack_received_estimator:
  "srtt (on_ack_received c ack_num rtt) = srtt (update_rtt c rtt)"
  "rttvar (on_ack_received c ack_num rtt) = rttvar (update_rtt c rtt)"
  by (simp_all add: on_ack_received_def Let_def)

text \<open>
  Claim C2, as the code has it. The server keeps no transmit count. Handling the
  acknowledgement of a pending message always calls \<^verbatim>\<open>on_ack_received\<close> with the time
  since the entry's send time, which every retransmission resets: the sample enters
  \<^verbatim>\<open>srtt\<close>, \<^verbatim>\<open>rttvar\<close> and the sample window whether or not the message was
  retransmitted.
\<close>

theorem ack_always_feeds_estimator:
  assumes "ack_for (content ack_message) = Some i"
    and "map_of (pending_messages conn) i = Some (m, send_time)"
  shows "congestion_control (handle_ack ack_for conn ack_message now) =
           on_ack_received (congestion_control conn) (expected_ack conn) (now - send_time) \<and>
         srtt (congestion_control (handle_ack ack_for conn ack_message now)) =
           (if rtt_samples (congestion_control conn) = [] then now - send_time
            else 0.875 * srtt (congestion_control conn) + 0.125 * (now - send_time)) \<and>
         rttvar (congestion_control (handle_ack ack_for conn ack_message now)) =
           (if rtt_samples (congestion_control conn) = [] then (now - send_time) / 2
            else 0.75 * rttvar (congestion_control conn)
                 + 0.25 * \<bar>srtt (congestion_control conn) - (now - send_time)\<bar>) \<and>
         rtt_samples (congestion_control (handle_ack ack_for conn ack_message now)) =
           (if length (rtt_samples (congestion_control conn)) \<ge> 100
            then tl (rtt_samples (congestion_control conn) @ [now - send_time])
            else rtt_samples (congestion_control conn) @ [now - send_time])"
proof -
  have cc: "congestion_control (handle_ack ack_for conn ack_message now) =
      on_ack_received (congestion_control conn) (expected_ack conn) (now - send_time)"
    using assms by (simp add: handle_ack_def Let_def)
  show ?thesis
    unfolding cc
    by (simp add: on_ack_received_estimator update_rtt_estimator
        rtt_samples_on_ack_received rtt_samples_update_rtt)
qed

lemma retransmitted_once:
  "conn_run (ack_for_of python_library) (ClientConnection_init ''c1'' 0)
     [Enqueue example_chat, Sender_pass 0, Sender_pass 4] =
   (ClientConnection_init ''c1'' 0)
     \<lparr>congestion_control := on_timeout CongestionControl_init,
      pending_messages := [(''m1'', example_chat, 4)],
      wire := [example_chat, example_chat]\<rparr>"
  by (simp add: conn_run_def send_message_def sender_worker_pass_def to_retransmit_def
      send_raw_def Let_def ClientConnection_init_def CongestionControl_init_def
      example_chat_fields on_timeout_def py_int_def)

theorem ack_always_feeds_estimator_witness:
  "(ack_for_of python_library) (content example_ack) = Some ''m1'' \<and>
   map_of (pending_messages (conn_run (ack_for_of python_library) (ClientConnection_init ''c1'' 0)
     [Enqueue example_chat, Sender_pass 0, Sender_pass 4])) ''m1'' = Some (example_chat, 4) \<and>
   srtt (congestion_control (handle_ack (ack_for_of python_library)
     (conn_run (ack_for_of python_library) (ClientConnection_init ''c1'' 0)
        [Enqueue example_chat, Sender_pass 0, Sender_pass 4]) example_ack 5)) = 1"
proof -
  let ?c = "conn_run (ack_for_of python_library) (ClientConnection_init ''c1'' 0)
     [Enqueue example_chat, Sender_pass 0, Sender_pass 4]"
  have a: "(ack_for_of python_library) (content example_ack) = Some ''m1''"
    by (rule example_ack_for)
  have b: "map_of (pending_messages ?c) ''m1'' = Some (example_chat, 4)"
    by (simp add: retransmitted_once)
  have e: "rtt_samples (congestion_control ?c) = []"
    by (simp add: retransmitted_once on_timeout_def CongestionControl_init_def Let_def)
  note fed = ack_always_feeds_estimator
    [of "ack_for_of python_library" example_ack "''m1''" ?c example_chat 4 5, OF a b]
  from fed [THEN conjunct2, THEN conjunct1] e
  have "srtt (congestion_control (handle_ack (ack_for_of python_library) ?c example_ack 5)) = 1"
    by simp
  with a b show ?thesis by simp
qed

text \<open>
  Claim C2 as stated fails. A chat message is sent at time 0 and, unacknowledged,
  again at time 4: it has been transmitted twice. Its acknowledgement arrives at time 5,
  and handling it moves \<^verbatim>\<open>srtt\<close> from 0 to 1 and \<^verbatim>\<open>rttvar\<close> from 0 to 1/2.
\<close>

theorem karn_rule_counterexample:
  "count_list (wire (conn_run (ack_for_of python_library) (ClientConnection_init ''c1'' 0)
      [Enqueue example_chat, Sender_pass 0, Sender_pass 4])) example_chat = 2 \<and>
   srtt (congestion_control (conn_run (ack_for_of python_library) (ClientConnection_init ''c1'' 0)
      [Enqueue example_chat, Sender_pass 0, Sender_pass 4])) = 0 \<and>
   rttvar (congestion_control (conn_run (ack_for_of python_library) (ClientConnection_init ''c1'' 0)
      [Enqueue example_chat, Sender_pass 0, Sender_pass 4])) = 0 \<and>
   srtt (congestion_control (conn_run (ack_for_of python_library) (ClientConnection_init ''c1'' 0)
      [Enqueue example_chat, Sender_pass 0, Sender_pass 4, Handle_ack example_ack 5])) = 1 \<and>
   rttvar (congestion_control (conn_run (ack_for_of python_library) (ClientConnection_init ''c1'' 0)
      [Enqueue example_chat, Sender_pass 0, Sender_pass 4, Handle_ack example_ack 5])) = 1 / 2"
proof -
  let ?evs = "[Enqueue example_chat, Sender_pass 0, Sender_pass 4]"
  have split: "conn_run (ack_for_of python_library) (ClientConnection_init ''c1'' 0)
      [Enqueue example_chat, Sender_pass 0, Sender_pass 4, Handle_ack example_ack 5] =
    handle_ack (ack_for_of python_library) (conn_run (ack_for_of python_library) (ClientConnection_init ''c1'' 0) ?evs)
      example_ack 5"
    using conn_run_snoc [of "ack_for_of python_library" "ClientConnection_init ''c1'' 0" ?evs
        "Handle_ack example_ack 5"]
    by simp
  have a: "(ack_for_of python_library) (content example_ack) = Some ''m1''"
    by (rule example_ack_for)
  show ?thesis
    unfolding split retransmitted_once
    by (simp add: handle_ack_def a Let_def on_ack_received_estimator update_rtt_estimator
        on_timeout_def CongestionControl_init_def ClientConnection_init_def)
qed

section \<open>Properties of the message handling\<close>

lemma broadcast_to_keeps:
  "clients (broadcast_to message ex srv cid) = clients srv"
  "connections (broadcast_to message (Some x) srv cid) x = connections srv x"
  by (simp_all add: broadcast_to_def split: option.splits)

lemma foldl_broadcast_to_keeps:
  "clients (foldl (broadcast_to message ex) srv cids) = clients srv \<and>
   connections (foldl (broadcast_to message (Some x)) srv cids) x = connections srv x"
  by (induction cids arbitrary: srv) (simp_all add: broadcast_to_keeps)

lemma broadcast_message_keeps:
  "clients (broadcast_message L srv text ex now r) = clients srv"
  "connections (broadcast_message L srv text (Some x) now r) x = connections srv x"
  by (simp_all add: broadcast_message_def Let_def foldl_broadcast_to_keeps)

lemma send_message_keeps [simp]:
  "username (send_message conn m) = username conn"
  "running (send_message conn m) = running conn"
  "socket_open (send_message conn m) = socket_open conn"
  by (simp_all add: send_message_def)

lemma validate_username_iff:
  "validate_username name \<longleftrightarrow>
     1 \<le> length name \<and> length name \<le> 32 \<and> set name \<subseteq> allowed_chars \<and> hd name \<noteq> CHR ''-''"
  by (cases name) (auto simp: validate_username_def list_all_iff)

text \<open>
  Claim C7, as the code has it. Handling a \<^verbatim>\<open>JOIN\<close> message sets the connection's
  \<^verbatim>\<open>username\<close> to the content of the message, whatever it is: the JOIN is never
  rejected, the connection stays registered, and its \<^verbatim>\<open>running\<close> flag and socket are
  left as they were. The validator, which the server does not call, accepts exactly the
  names of length 1 to 32 over \<open>[A-Za-z0-9_-]\<close> that do not start with a hyphen.
\<close>

theorem join_sets_username_unvalidated:
  assumes "connections srv cid = Some conn" and "client_id conn = cid"
    and "msg_type message = JOIN"
  shows "map_option username (connections (process_message L srv cid message now r_ack r_msg) cid)
           = Some (content message) \<and>
         map_option running (connections (process_message L srv cid message now r_ack r_msg) cid)
           = Some (running conn) \<and>
         map_option socket_open (connections (process_message L srv cid message now r_ack r_msg) cid)
           = Some (socket_open conn) \<and>
         clients (process_message L srv cid message now r_ack r_msg) = clients srv \<and>
         (validate_username name \<longleftrightarrow>
            1 \<le> length name \<and> length name \<le> 32 \<and> set name \<subseteq> allowed_chars \<and>
            hd name \<noteq> CHR ''-'')"
proof -
  have "client_id (if msg_type message \<noteq> ACK then send_message (conn\<lparr>last_heartbeat := now\<rparr>) a
                   else conn\<lparr>last_heartbeat := now\<rparr>) = cid" for a
    using assms(2) by (simp add: send_message_def)
  with assms(1,3) show ?thesis
    by (simp add: process_message_def Let_def broadcast_message_keeps validate_username_iff)
qed

theorem join_sets_username_unvalidated_witness:
  "connections example_server ''c1'' = Some (ClientConnection_init ''c1'' 0) \<and>
   client_id (ClientConnection_init ''c1'' 0) = ''c1'' \<and>
   msg_type (example_join ''ok_name_1'') = JOIN \<and>
   map_option username (connections (process_message python_library example_server ''c1''
      (example_join ''ok_name_1'') 1 1234 5678) ''c1'') = Some ''ok_name_1'' \<and>
   map_option running (connections (process_message python_library example_server ''c1''
      (example_join ''ok_name_1'') 1 1234 5678) ''c1'') = Some True \<and>
   validate_username ''ok_name_1''"
proof -
  have a: "connections example_server ''c1'' = Some (ClientConnection_init ''c1'' 0)"
    by (simp add: example_server_def)
  have i: "client_id (ClientConnection_init ''c1'' 0) = ''c1''"
    by (simp add: ClientConnection_init_def)
  have b: "msg_type (example_join ''ok_name_1'') = JOIN"
    by (simp add: example_join_def)
  have c: "validate_username ''ok_name_1''"
    by (simp add: validate_username_def allowed_chars_def)
  from join_sets_username_unvalidated [OF a i b, of python_library 1 1234 5678] a i b c
  show ?thesis
    by (simp add: example_join_def ClientConnection_init_def)
qed

text \<open>
  Claim C7 as stated fails: the name \<open>-bad\<close> does not pass the validator, and the
  server, handling the \<^verbatim>\<open>JOIN\<close> of a client that calls itself so, makes it the
  connection's \<^verbatim>\<open>username\<close>, keeps the connection registered and leaves it running.
\<close>

theorem join_validation_counterexample:
  "\<not> validate_username ''-bad'' \<and>
   map_option username (connections (process_message python_library example_server ''c1''
      (example_join ''-bad'') 1 1234 5678) ''c1'') = Some ''-bad'' \<and>
   map_option running (connections (process_message python_library example_server ''c1''
      (example_join ''-bad'') 1 1234 5678) ''c1'') = Some True \<and>
   clients (process_message python_library example_server ''c1''
      (example_join ''-bad'') 1 1234 5678) = [''c1'']"
  by (simp add: validate_username_def process_message_def Let_def broadcast_message_keeps
      example_server_def example_join_def ClientConnection_init_def send_message_def)

section \<open>Properties of the protocol module\<close>

lemma str_int_values:
  "str_int 0 = ''0''" "str_int 1 = ''1''"
  by (simp_all add: str_int_def str_nat.simps digit_char_def)

lemma float_str_integral_0: "float_str_integral 0 = ''0.0''"
  by (simp add: float_str_integral_def str_int_values)

lemma str_nat_nonempty: "str_nat n \<noteq> []"
  by (subst str_nat.simps) simp

lemma str_int_nonempty: "str_int i \<noteq> []"
  by (simp add: str_int_def str_nat_nonempty)

lemma server_MessageType_value:
  "server_MessageType t = Some t' \<Longrightarrow> MessageType_value t' = Proto_MessageType_value t"
  by (cases t) auto

lemma Proto_MessageType_of_value:
  "Proto_MessageType_of (JString (Proto_MessageType_value t)) = Some t"
  by (cases t) (simp_all add: Proto_MessageType_of_def)

lemma proto_calculate_checksum_ignores_checksum:
  "proto_calculate_checksum L (m\<lparr>proto_checksum := cs\<rparr>) = proto_calculate_checksum L m"
  by (simp add: proto_calculate_checksum_def proto_checksum_data_def)

lemma proto_post_init_valid: "proto_is_valid L m \<Longrightarrow> proto_post_init L m = m"
  by (simp add: proto_is_valid_def proto_post_init_def Let_def)

lemma from_dict_to_dict:
  assumes "to_dict m = JObject kvs"
  shows "from_dict L kvs = Inr (proto_post_init L m)"
proof -
  from assms have kvs: "kvs =
       [(''msg_id'', JString (proto_msg_id m)),
        (''msg_type'', JString (Proto_MessageType_value (proto_msg_type m))),
        (''sender'', JString (proto_sender m)),
        (''content'', JString (proto_content m)),
        (''timestamp'', JFloat (proto_timestamp m)),
        (''checksum'', JString (proto_checksum m)),
        (''priority'', JInt (proto_priority m)),
        (''sequence_number'', JInt (proto_sequence_number m))]"
    by (simp add: to_dict_def)
  show ?thesis
    unfolding kvs from_dict_def
    by (cases m) (simp add: Proto_MessageType_of_value field_names_def required_fields_def)
qed

lemma of_char_char_of_nat: "of_char (char_of (n::nat)) = n mod 256"
  by (simp add: of_char_of)

lemma unpack_pack_u32:
  assumes "n < 4294967296"
  shows "unpack_u32 (pack_u32 n) = n"
proof -
  define a where "a = n div 256"
  define b where "b = a div 256"
  define c where "c = b div 256"
  have d2: "n div 65536 = b" and d3: "n div 16777216 = c"
    by (simp_all add: a_def b_def c_def div_mult2_eq)
  from assms have "c < 256" unfolding d3 [symmetric] by simp
  then have c: "c mod 256 = c" by simp
  have n: "n = a * 256 + n mod 256" and a: "a = b * 256 + a mod 256"
    and b: "b = c * 256 + b mod 256"
    by (simp_all add: a_def b_def c_def)
  have "unpack_u32 (pack_u32 n) =
      ((c mod 256 * 256 + b mod 256) * 256 + a mod 256) * 256 + n mod 256"
    by (simp add: unpack_u32_def pack_u32_def of_char_char_of_nat d2 d3 a_def [symmetric])
  also have "\<dots> = (b * 256 + a mod 256) * 256 + n mod 256"
    using b by (simp add: c)
  also have "\<dots> = a * 256 + n mod 256"
    using a by simp
  also have "\<dots> = n" using n by simp
  finally show ?thesis .
qed

lemma frame_payload_frame:
  "length js < 4294967296 \<Longrightarrow> frame_payload (pack_u32 (length js) @ js) = js"
proof -
  assume "length js < 4294967296"
  then have "unpack_u32 (pack_u32 (length js)) = length js" by (rule unpack_pack_u32)
  moreover have "take 4 (pack_u32 (length js) @ js) = pack_u32 (length js)"
    by (simp add: pack_u32_def)
  moreover have "drop 4 (pack_u32 (length js) @ js) = js"
    by (simp add: pack_u32_def)
  ultimately show ?thesis by (simp add: frame_payload_def Let_def)
qed

lemma example_proto_data:
  "proto_checksum_data python_library example_proto_message = ''m1chatalicehi0.010''"
  by (simp add: proto_checksum_data_def example_proto_message_def python_library_def
      float_str_integral_0 str_int_values)

lemma example_server_data:
  "checksum_data python_library example_server_message = ''m1chatalicehi0.0''"
  by (simp add: checksum_data_def example_server_message_def python_library_def
      float_str_integral_0)

lemma example_proto_checksum:
  "proto_calculate_checksum python_library example_proto_message = ''afac6880b069849b''"
  unfolding proto_calculate_checksum_def example_proto_data
  by (simp add: python_library_def sha256_proto_example_digest)

lemma example_server_checksum:
  "calculate_checksum python_library example_server_message = ''34d68ba4c41a4e5e''"
  unfolding calculate_checksum_def example_server_data
  by (simp add: python_library_def sha256_server_example_digest)

text \<open>
  Claim C1, as the code has it. In the protocol module \<^verbatim>\<open>calculate_checksum\<close> returns the
  first 16 characters of the SHA-256 hexadecimal digest of the seven stringified fields
  \<^verbatim>\<open>msg_id\<close>, \<^verbatim>\<open>msg_type\<close>, \<^verbatim>\<open>sender\<close>, \<^verbatim>\<open>content\<close>, \<^verbatim>\<open>timestamp\<close>, \<^verbatim>\<open>priority\<close>,
  \<^verbatim>\<open>sequence_number\<close> concatenated without separators, as the specification words it.
  The server's own \<^verbatim>\<open>Message\<close> class has no \<^verbatim>\<open>priority\<close> and no \<^verbatim>\<open>sequence_number\<close>: its
  \<^verbatim>\<open>calculate_checksum\<close> hashes the first five fields only. For a message both classes
  can hold, the string the protocol module hashes is the string the server hashes
  followed by the texts of \<^verbatim>\<open>priority\<close> and \<^verbatim>\<open>sequence_number\<close>, so the two never hash
  the same string.
\<close>

theorem checksum_construction:
  "proto_calculate_checksum L m = spec_checksum L m \<and>
   (case server_Message m of
      None \<Rightarrow> True
    | Some m' \<Rightarrow>
        calculate_checksum L m' =
          take 16 (sha256_hexdigest L (concat
            [msg_id m', MessageType_value (msg_type m'), sender m', content m',
             str_float L (timestamp m')])) \<and>
        proto_checksum_data L m =
          checksum_data L m' @ str_int (proto_priority m) @ str_int (proto_sequence_number m) \<and>
        proto_checksum_data L m \<noteq> checksum_data L m')"
proof -
  have spec: "proto_calculate_checksum L m = spec_checksum L m"
    by (simp add: proto_calculate_checksum_def spec_checksum_def proto_checksum_data_def)
  show ?thesis
  proof (cases "server_MessageType (proto_msg_type m)")
    case None
    with spec show ?thesis by (simp add: server_Message_def)
  next
    case (Some t)
    from server_MessageType_value [OF Some] Some spec show ?thesis
      by (simp add: server_Message_def calculate_checksum_def checksum_data_def
          proto_checksum_data_def str_int_nonempty)
  qed
qed

text \<open>
  Claim C1 as stated fails in its second half. For the chat message \<open>m1\<close> of \<open>alice\<close>
  with content \<open>hi\<close>, timestamp 0.0, priority 1 and sequence number 0, the protocol module
  hashes \<open>m1chatalicehi0.010\<close> and returns \<open>afac6880b069849b\<close>, the server's class hashes
  \<open>m1chatalicehi0.0\<close> and returns \<open>34d68ba4c41a4e5e\<close>.
\<close>

theorem checksum_identity_counterexample:
  "server_Message example_proto_message = Some example_server_message \<and>
   proto_calculate_checksum python_library example_proto_message = ''afac6880b069849b'' \<and>
   calculate_checksum python_library example_server_message = ''34d68ba4c41a4e5e''"
proof -
  have "server_Message example_proto_message = Some example_server_message"
    by (simp add: server_Message_def example_proto_message_def example_server_message_def)
  with example_proto_checksum example_server_checksum show ?thesis by simp
qed

text \<open>
  Claim C8. Let \<open>M\<close> be a valid message (its checksum verifies), let its JSON text be
  shorter than \<open>2\<^sup>3\<^sup>2\<close> bytes, so that \<^verbatim>\<open>struct.pack\<close> accepts the length, and let the JSON
  library read back the document it wrote for \<open>M\<close>. Then \<^verbatim>\<open>to_bytes\<close> returns a frame:
  four bytes that hold the length of the JSON text, big-endian, followed by that text.
  The payload the receiver cuts out of the frame is the JSON text, \<^verbatim>\<open>from_bytes\<close> of the
  payload returns \<open>M\<close> itself, and the checksum of the decoded message verifies.
\<close>

theorem framing_round_trip:
  assumes "proto_is_valid L m"
    and "length (json_dumps_compact L (to_dict m)) < 4294967296"
    and "json_loads L (json_dumps_compact L (to_dict m)) = Some (to_dict m)"
  shows "(case to_bytes L m of
            Inl e \<Rightarrow> False
          | Inr frame \<Rightarrow>
              drop 4 frame = json_dumps_compact L (to_dict m) \<and>
              unpack_u32 (take 4 frame) = length (json_dumps_compact L (to_dict m)) \<and>
              frame_payload frame = json_dumps_compact L (to_dict m) \<and>
              (case from_bytes L (frame_payload frame) of
                 Inl e \<Rightarrow> False
               | Inr m' \<Rightarrow> m' = m \<and> proto_is_valid L m'))"
proof -
  let ?js = "json_dumps_compact L (to_dict m)"
  have frame: "to_bytes L m = Inr (pack_u32 (length ?js) @ ?js)"
    using assms(2) by (simp add: to_bytes_def Let_def)
  have prefix: "take 4 (pack_u32 (length ?js) @ ?js) = pack_u32 (length ?js)"
    and rest: "drop 4 (pack_u32 (length ?js) @ ?js) = ?js"
    by (simp_all add: pack_u32_def)
  have len: "unpack_u32 (pack_u32 (length ?js)) = length ?js"
    using assms(2) by (rule unpack_pack_u32)
  have payload: "frame_payload (pack_u32 (length ?js) @ ?js) = ?js"
    using assms(2) by (rule frame_payload_frame)
  obtain kvs where kvs: "to_dict m = JObject kvs" by (simp add: to_dict_def)
  have "from_bytes L ?js = from_dict L kvs"
    by (simp add: from_bytes_def assms(3)) (simp add: kvs)
  also have "\<dots> = Inr (proto_post_init L m)" using kvs by (rule from_dict_to_dict)
  also have "\<dots> = Inr m" using assms(1) by (simp add: proto_post_init_valid)
  finally have "from_bytes L ?js = Inr m" .
  with frame payload prefix rest len assms(1) show ?thesis by simp
qed

lemma example_json_round_trip:
  "json_loads python_library (json_dumps_compact python_library (to_dict example_proto_message))
     = Some (to_dict example_proto_message)"
  by (simp add: python_library_def to_dict_def example_proto_message_def json_quote_def
      float_str_integral_def str_int_def str_nat.simps digit_char_def json_parse_flat_def
      skip_ws_def parse_scalar_def parse_number_def is_digit_def nat_of_digits_def Let_def)

lemma example_json_length:
  "length (json_dumps_compact python_library (to_dict example_proto_message)) < 4294967296"
  by (simp add: python_library_def to_dict_def example_proto_message_def json_quote_def
      float_str_integral_def str_int_def str_nat.simps digit_char_def)

theorem framing_round_trip_witness:
  "proto_is_valid python_library example_proto_message \<and>
   length (json_dumps_compact python_library (to_dict example_proto_message)) < 4294967296 \<and>
   json_loads python_library (json_dumps_compact python_library (to_dict example_proto_message))
     = Some (to_dict example_proto_message) \<and>
   map_sum id (\<lambda>frame. from_bytes python_library (frame_payload frame))
     (to_bytes python_library example_proto_message) = Inr (Inr example_proto_message)"
proof -
  have a: "proto_is_valid python_library example_proto_message"
    by (simp add: proto_is_valid_def example_proto_checksum)
      (simp add: example_proto_message_def)
  from framing_round_trip [OF a example_json_length example_json_round_trip]
  have "map_sum id (\<lambda>frame. from_bytes python_library (frame_payload frame))
     (to_bytes python_library example_proto_message) = Inr (Inr example_proto_message)"
    by (auto split: sum.splits)
  with a example_json_length example_json_round_trip show ?thesis by simp
qed

end
